theory Spec2Isabelle
  imports Main "HOL-Library.Sublist"
begin

section \<open>Python values used by bot.py\<close>

text \<open>
  A Python \<open>str\<close> is a sequence of Unicode code points and \<open>len\<close> counts code
  points, so a string is modelled as the list of its code points. The string literals of
  bot.py are mostly Cyrillic; each is a named constant below, with a transliteration of
  the literal in the comment beside it.
\<close>

type_synonym pystr = "nat list"

definition ascii :: "string \<Rightarrow> pystr" where
  "ascii s = map of_char s"

definition NL :: pystr where (* the newline character *)
  "NL = [10]"

definition S_yes :: pystr where (* da *)
  "S_yes = [1076, 1072]"

definition S_no :: pystr where (* net *)
  "S_no = [1085, 1077, 1090]"

definition S_unknown :: pystr where (* neizvestno *)
  "S_unknown = [1085, 1077, 1080, 1079, 1074, 1077, 1089, 1090, 1085, 1086]"

definition S_owner_id_not_numeric :: pystr where (* OWNER_ID zadan, no ne yavlyaetsya chislom:  *)
  "S_owner_id_not_numeric = [79, 87, 78, 69, 82, 95, 73, 68, 32, 1079, 1072, 1076, 1072, 1085, 44, 32, 1085, 1086, 32, 1085, 1077, 32, 1103, 1074, 1083, 1103, 1077, 1090, 1089, 1103, 32, 1095, 1080, 1089, 1083, 1086, 1084, 58, 32]"

definition S_notify_failed :: pystr where (* Ne udalos' otpravit' uvedomlenie vladel'cu *)
  "S_notify_failed = [1053, 1077, 32, 1091, 1076, 1072, 1083, 1086, 1089, 1100, 32, 1086, 1090, 1087, 1088, 1072, 1074, 1080, 1090, 1100, 32, 1091, 1074, 1077, 1076, 1086, 1084, 1083, 1077, 1085, 1080, 1077, 32, 1074, 1083, 1072, 1076, 1077, 1083, 1100, 1094, 1091]"

definition S_ID :: pystr where (* ID:  *)
  "S_ID = [73, 68, 58, 32]"

definition S_Bot :: pystr where (* Bot:  *)
  "S_Bot = [66, 111, 116, 58, 32]"

definition S_Name :: pystr where (* Imya:  *)
  "S_Name = [1048, 1084, 1103, 58, 32]"

definition S_Username_at :: pystr where (* Username: @ *)
  "S_Username_at = [85, 115, 101, 114, 110, 97, 109, 101, 58, 32, 64]"

definition S_Username_none :: pystr where (* Username: net *)
  "S_Username_none = [85, 115, 101, 114, 110, 97, 109, 101, 58, 32, 1085, 1077, 1090]"

definition S_Language :: pystr where (* Yazyk:  *)
  "S_Language = [1071, 1079, 1099, 1082, 58, 32]"

definition S_Premium :: pystr where (* Premium:  *)
  "S_Premium = [80, 114, 101, 109, 105, 117, 109, 58, 32]"

definition S_Scam :: pystr where (* Scam:  *)
  "S_Scam = [83, 99, 97, 109, 58, 32]"

definition S_Fake :: pystr where (* Fake:  *)
  "S_Fake = [70, 97, 107, 101, 58, 32]"

definition S_Support :: pystr where (* Support:  *)
  "S_Support = [83, 117, 112, 112, 111, 114, 116, 58, 32]"

definition S_Attachment_menu :: pystr where (* Dobavlen v menyu vlozhenij:  *)
  "S_Attachment_menu = [1044, 1086, 1073, 1072, 1074, 1083, 1077, 1085, 32, 1074, 32, 1084, 1077, 1085, 1102, 32, 1074, 1083, 1086, 1078, 1077, 1085, 1080, 1081, 58, 32]"

definition S_Can_join_groups :: pystr where (* Mozhet prisoedinyat'sya k gruppam:  *)
  "S_Can_join_groups = [1052, 1086, 1078, 1077, 1090, 32, 1087, 1088, 1080, 1089, 1086, 1077, 1076, 1080, 1085, 1103, 1090, 1100, 1089, 1103, 32, 1082, 32, 1075, 1088, 1091, 1087, 1087, 1072, 1084, 58, 32]"

definition S_Can_read_all :: pystr where (* Mozhet chitat' vse soobshcheniya grupp:  *)
  "S_Can_read_all = [1052, 1086, 1078, 1077, 1090, 32, 1095, 1080, 1090, 1072, 1090, 1100, 32, 1074, 1089, 1077, 32, 1089, 1086, 1086, 1073, 1097, 1077, 1085, 1080, 1103, 32, 1075, 1088, 1091, 1087, 1087, 58, 32]"

definition S_Supports_inline :: pystr where (* Podderzhivaet inline:  *)
  "S_Supports_inline = [1055, 1086, 1076, 1076, 1077, 1088, 1078, 1080, 1074, 1072, 1077, 1090, 32, 105, 110, 108, 105, 110, 101, 58, 32]"

definition S_Can_connect_business :: pystr where (* Can connect to business:  *)
  "S_Can_connect_business = [67, 97, 110, 32, 99, 111, 110, 110, 101, 99, 116, 32, 116, 111, 32, 98, 117, 115, 105, 110, 101, 115, 115, 58, 32]"

definition S_Has_main_web_app :: pystr where (* Has main web app:  *)
  "S_Has_main_web_app = [72, 97, 115, 32, 109, 97, 105, 110, 32, 119, 101, 98, 32, 97, 112, 112, 58, 32]"

definition S_Emoji_status :: pystr where (* Emoji status:  *)
  "S_Emoji_status = [69, 109, 111, 106, 105, 32, 1089, 1090, 1072, 1090, 1091, 1089, 58, 32]"

definition S_Personal_chat_ID :: pystr where (* Personal chat ID:  *)
  "S_Personal_chat_ID = [80, 101, 114, 115, 111, 110, 97, 108, 32, 99, 104, 97, 116, 32, 73, 68, 58, 32]"

definition S_Admins_unavailable :: pystr where (* Administratory: nedostupno *)
  "S_Admins_unavailable = [1040, 1076, 1084, 1080, 1085, 1080, 1089, 1090, 1088, 1072, 1090, 1086, 1088, 1099, 58, 32, 1085, 1077, 1076, 1086, 1089, 1090, 1091, 1087, 1085, 1086]"

definition S_comma :: pystr where (* ,  *)
  "S_comma = [44, 32]"

definition S_id_open :: pystr where (*  (id  *)
  "S_id_open = [32, 40, 105, 100, 32]"

definition S_close :: pystr where (* ) *)
  "S_close = [41]"

definition S_and_more :: pystr where (* , i eshche  *)
  "S_and_more = [44, 32, 1080, 32, 1077, 1097, 1077, 32]"

definition S_Admins_open :: pystr where (* Administratory ( *)
  "S_Admins_open = [1040, 1076, 1084, 1080, 1085, 1080, 1089, 1090, 1088, 1072, 1090, 1086, 1088, 1099, 32, 40]"

definition S_close_colon :: pystr where (* ):  *)
  "S_close_colon = [41, 58, 32]"

definition S_Perms_unavailable :: pystr where (* Razresheniya po umolchaniyu: nedostupno *)
  "S_Perms_unavailable = [1056, 1072, 1079, 1088, 1077, 1096, 1077, 1085, 1080, 1103, 32, 1087, 1086, 32, 1091, 1084, 1086, 1083, 1095, 1072, 1085, 1080, 1102, 58, 32, 1085, 1077, 1076, 1086, 1089, 1090, 1091, 1087, 1085, 1086]"

definition S_Perms_all_denied :: pystr where (* Razresheniya po umolchaniyu: zapreshcheno vse *)
  "S_Perms_all_denied = [1056, 1072, 1079, 1088, 1077, 1096, 1077, 1085, 1080, 1103, 32, 1087, 1086, 32, 1091, 1084, 1086, 1083, 1095, 1072, 1085, 1080, 1102, 58, 32, 1079, 1072, 1087, 1088, 1077, 1097, 1077, 1085, 1086, 32, 1074, 1089, 1077]"

definition S_Perms :: pystr where (* Razresheniya po umolchaniyu:  *)
  "S_Perms = [1056, 1072, 1079, 1088, 1077, 1096, 1077, 1085, 1080, 1103, 32, 1087, 1086, 32, 1091, 1084, 1086, 1083, 1095, 1072, 1085, 1080, 1102, 58, 32]"

definition L_messages :: pystr where (* soobshcheniya *)
  "L_messages = [1089, 1086, 1086, 1073, 1097, 1077, 1085, 1080, 1103]"

definition L_audios :: pystr where (* audio *)
  "L_audios = [1072, 1091, 1076, 1080, 1086]"

definition L_documents :: pystr where (* dokumenty *)
  "L_documents = [1076, 1086, 1082, 1091, 1084, 1077, 1085, 1090, 1099]"

definition L_photos :: pystr where (* foto *)
  "L_photos = [1092, 1086, 1090, 1086]"

definition L_videos :: pystr where (* video *)
  "L_videos = [1074, 1080, 1076, 1077, 1086]"

definition L_video_notes :: pystr where (* video-zametki *)
  "L_video_notes = [1074, 1080, 1076, 1077, 1086, 45, 1079, 1072, 1084, 1077, 1090, 1082, 1080]"

definition L_voice_notes :: pystr where (* golosovye *)
  "L_voice_notes = [1075, 1086, 1083, 1086, 1089, 1086, 1074, 1099, 1077]"

definition L_polls :: pystr where (* oprosy *)
  "L_polls = [1086, 1087, 1088, 1086, 1089, 1099]"

definition L_other :: pystr where (* drugoe *)
  "L_other = [1076, 1088, 1091, 1075, 1086, 1077]"

definition L_previews :: pystr where (* prev'yu ssylok *)
  "L_previews = [1087, 1088, 1077, 1074, 1100, 1102, 32, 1089, 1089, 1099, 1083, 1086, 1082]"

definition L_change_info :: pystr where (* izmenyat' info *)
  "L_change_info = [1080, 1079, 1084, 1077, 1085, 1103, 1090, 1100, 32, 1080, 1085, 1092, 1086]"

definition L_invite :: pystr where (* priglashat' *)
  "L_invite = [1087, 1088, 1080, 1075, 1083, 1072, 1096, 1072, 1090, 1100]"

definition L_pin :: pystr where (* pinit' *)
  "L_pin = [1087, 1080, 1085, 1080, 1090, 1100]"

definition L_topics :: pystr where (* upravlyat' topikami *)
  "L_topics = [1091, 1087, 1088, 1072, 1074, 1083, 1103, 1090, 1100, 32, 1090, 1086, 1087, 1080, 1082, 1072, 1084, 1080]"

definition S_custom_emoji :: pystr where (* custom_emoji *)
  "S_custom_emoji = [99, 117, 115, 116, 111, 109, 95, 101, 109, 111, 106, 105]"

definition S_count_forbidden :: pystr where (* Net prav chitat' kolichestvo uchastnikov *)
  "S_count_forbidden = [1053, 1077, 1090, 32, 1087, 1088, 1072, 1074, 32, 1095, 1080, 1090, 1072, 1090, 1100, 32, 1082, 1086, 1083, 1080, 1095, 1077, 1089, 1090, 1074, 1086, 32, 1091, 1095, 1072, 1089, 1090, 1085, 1080, 1082, 1086, 1074]"

definition S_count_failed :: pystr where (* Ne udalos' poluchit' kolichestvo uchastnikov *)
  "S_count_failed = [1053, 1077, 32, 1091, 1076, 1072, 1083, 1086, 1089, 1100, 32, 1087, 1086, 1083, 1091, 1095, 1080, 1090, 1100, 32, 1082, 1086, 1083, 1080, 1095, 1077, 1089, 1090, 1074, 1086, 32, 1091, 1095, 1072, 1089, 1090, 1085, 1080, 1082, 1086, 1074]"

definition S_admins_forbidden :: pystr where (* Net prav chitat' administratorov *)
  "S_admins_forbidden = [1053, 1077, 1090, 32, 1087, 1088, 1072, 1074, 32, 1095, 1080, 1090, 1072, 1090, 1100, 32, 1072, 1076, 1084, 1080, 1085, 1080, 1089, 1090, 1088, 1072, 1090, 1086, 1088, 1086, 1074]"

definition S_admins_failed :: pystr where (* Ne udalos' poluchit' administratorov *)
  "S_admins_failed = [1053, 1077, 32, 1091, 1076, 1072, 1083, 1086, 1089, 1100, 32, 1087, 1086, 1083, 1091, 1095, 1080, 1090, 1100, 32, 1072, 1076, 1084, 1080, 1085, 1080, 1089, 1090, 1088, 1072, 1090, 1086, 1088, 1086, 1074]"

definition S_Type :: pystr where (* Tip:  *)
  "S_Type = [1058, 1080, 1087, 58, 32]"

definition S_Title :: pystr where (* Nazvanie:  *)
  "S_Title = [1053, 1072, 1079, 1074, 1072, 1085, 1080, 1077, 58, 32]"

definition S_Public_name :: pystr where (* Publichnoe imya: @ *)
  "S_Public_name = [1055, 1091, 1073, 1083, 1080, 1095, 1085, 1086, 1077, 32, 1080, 1084, 1103, 58, 32, 64]"

definition S_Description :: pystr where (* Opisanie:  *)
  "S_Description = [1054, 1087, 1080, 1089, 1072, 1085, 1080, 1077, 58, 32]"

definition S_Bio :: pystr where (* Bio:  *)
  "S_Bio = [1041, 1080, 1086, 58, 32]"

definition S_Invite_link :: pystr where (* Invajt-link:  *)
  "S_Invite_link = [1048, 1085, 1074, 1072, 1081, 1090, 45, 1083, 1080, 1085, 1082, 58, 32]"

definition S_Protected :: pystr where (* Zashchita kontenta:  *)
  "S_Protected = [1047, 1072, 1097, 1080, 1090, 1072, 32, 1082, 1086, 1085, 1090, 1077, 1085, 1090, 1072, 58, 32]"

definition S_Hidden_members :: pystr where (* Skrytye uchastniki:  *)
  "S_Hidden_members = [1057, 1082, 1088, 1099, 1090, 1099, 1077, 32, 1091, 1095, 1072, 1089, 1090, 1085, 1080, 1082, 1080, 58, 32]"

definition S_Private_forwards :: pystr where (* Private forwards:  *)
  "S_Private_forwards = [80, 114, 105, 118, 97, 116, 101, 32, 102, 111, 114, 119, 97, 114, 100, 115, 58, 32]"

definition S_Anti_spam :: pystr where (* Aggressive anti-spam:  *)
  "S_Anti_spam = [65, 103, 103, 114, 101, 115, 115, 105, 118, 101, 32, 97, 110, 116, 105, 45, 115, 112, 97, 109, 58, 32]"

definition S_Join_to_send :: pystr where (* Join-to-send:  *)
  "S_Join_to_send = [74, 111, 105, 110, 45, 116, 111, 45, 115, 101, 110, 100, 58, 32]"

definition S_Join_by_request :: pystr where (* Join-by-request:  *)
  "S_Join_by_request = [74, 111, 105, 110, 45, 98, 121, 45, 114, 101, 113, 117, 101, 115, 116, 58, 32]"

definition S_Forum :: pystr where (* Forum vklyuchen:  *)
  "S_Forum = [1060, 1086, 1088, 1091, 1084, 32, 1074, 1082, 1083, 1102, 1095, 1077, 1085, 58, 32]"

definition S_Linked_chat :: pystr where (* Svyazannyj chat ID:  *)
  "S_Linked_chat = [1057, 1074, 1103, 1079, 1072, 1085, 1085, 1099, 1081, 32, 1095, 1072, 1090, 32, 73, 68, 58, 32]"

definition S_Extra_usernames :: pystr where (* Dop. yuzernejmy:  *)
  "S_Extra_usernames = [1044, 1086, 1087, 46, 32, 1102, 1079, 1077, 1088, 1085, 1077, 1081, 1084, 1099, 58, 32]"

definition S_at :: pystr where (* @ *)
  "S_at = [64]"

definition S_Members :: pystr where (* Uchastnikov:  *)
  "S_Members = [1059, 1095, 1072, 1089, 1090, 1085, 1080, 1082, 1086, 1074, 58, 32]"

definition S_Forum_hint :: pystr where (* Forumnyj rezhim vklyuchen. Zapustite /info vnutri konkretnogo topika, chtoby vyvesti svedeniya o nem. *)
  "S_Forum_hint = [1060, 1086, 1088, 1091, 1084, 1085, 1099, 1081, 32, 1088, 1077, 1078, 1080, 1084, 32, 1074, 1082, 1083, 1102, 1095, 1077, 1085, 46, 32, 1047, 1072, 1087, 1091, 1089, 1090, 1080, 1090, 1077, 32, 47, 105, 110, 102, 111, 32, 1074, 1085, 1091, 1090, 1088, 1080, 32, 1082, 1086, 1085, 1082, 1088, 1077, 1090, 1085, 1086, 1075, 1086, 32, 1090, 1086, 1087, 1080, 1082, 1072, 44, 32, 1095, 1090, 1086, 1073, 1099, 32, 1074, 1099, 1074, 1077, 1089, 1090, 1080, 32, 1089, 1074, 1077, 1076, 1077, 1085, 1080, 1103, 32, 1086, 32, 1085, 1077, 1084, 46]"

definition S_Topic_id :: pystr where (* Topik id  *)
  "S_Topic_id = [1058, 1086, 1087, 1080, 1082, 32, 105, 100, 32]"

definition S_Topic_failed :: pystr where (* : ne udalos' zagruzit' detali *)
  "S_Topic_failed = [58, 32, 1085, 1077, 32, 1091, 1076, 1072, 1083, 1086, 1089, 1100, 32, 1079, 1072, 1075, 1088, 1091, 1079, 1080, 1090, 1100, 32, 1076, 1077, 1090, 1072, 1083, 1080]"

definition S_Topic :: pystr where (* Topik:  *)
  "S_Topic = [1058, 1086, 1087, 1080, 1082, 58, 32]"

definition S_Topic_noname :: pystr where (* bez imeni *)
  "S_Topic_noname = [1073, 1077, 1079, 32, 1080, 1084, 1077, 1085, 1080]"

definition S_Thread_ID :: pystr where (* Thread ID:  *)
  "S_Thread_ID = [84, 104, 114, 101, 97, 100, 32, 73, 68, 58, 32]"

definition S_Icon_color :: pystr where (* Cvet ikonki:  *)
  "S_Icon_color = [1062, 1074, 1077, 1090, 32, 1080, 1082, 1086, 1085, 1082, 1080, 58, 32]"

definition S_Icon_emoji :: pystr where (* Emoji ikonki:  *)
  "S_Icon_emoji = [69, 109, 111, 106, 105, 32, 1080, 1082, 1086, 1085, 1082, 1080, 58, 32]"

definition S_Update :: pystr where (* Update:  *)
  "S_Update = [85, 112, 100, 97, 116, 101, 58, 32]"

definition S_ellipsis :: pystr where (* <U+2026> *)
  "S_ellipsis = [8230]"

definition S_Error_header :: pystr where (* <U+26A0><U+FE0F> Oshibka  *)
  "S_Error_header = [9888, 65039, 32, 1054, 1096, 1080, 1073, 1082, 1072, 32]"

definition S_colon :: pystr where (* :  *)
  "S_colon = [58, 32]"

definition S_serialize_failed :: pystr where (* Ne udalos' serializovat' update dlya otcheta *)
  "S_serialize_failed = [1053, 1077, 32, 1091, 1076, 1072, 1083, 1086, 1089, 1100, 32, 1089, 1077, 1088, 1080, 1072, 1083, 1080, 1079, 1086, 1074, 1072, 1090, 1100, 32, 117, 112, 100, 97, 116, 101, 32, 1076, 1083, 1103, 32, 1086, 1090, 1095, 1077, 1090, 1072]"

definition S_handler_exception :: pystr where (* Isklyuchenie v obrabotchike *)
  "S_handler_exception = [1048, 1089, 1082, 1083, 1102, 1095, 1077, 1085, 1080, 1077, 32, 1074, 32, 1086, 1073, 1088, 1072, 1073, 1086, 1090, 1095, 1080, 1082, 1077]"

definition S_emoji_id_one :: pystr where (* ID kastomnoj emoji:  *)
  "S_emoji_id_one = [73, 68, 32, 1082, 1072, 1089, 1090, 1086, 1084, 1085, 1086, 1081, 32, 101, 109, 111, 106, 105, 58, 32]"

definition S_emoji_id_many :: pystr where (* ID kastomnyh emoji:\n *)
  "S_emoji_id_many = [73, 68, 32, 1082, 1072, 1089, 1090, 1086, 1084, 1085, 1099, 1093, 32, 101, 109, 111, 106, 105, 58, 10]"




definition S_TelegramForbiddenError :: pystr where (* TelegramForbiddenError *)
  "S_TelegramForbiddenError = [84, 101, 108, 101, 103, 114, 97, 109, 70, 111, 114, 98, 105, 100, 100, 101, 110, 69, 114, 114, 111, 114]"

definition S_TelegramBadRequest :: pystr where (* TelegramBadRequest *)
  "S_TelegramBadRequest = [84, 101, 108, 101, 103, 114, 97, 109, 66, 97, 100, 82, 101, 113, 117, 101, 115, 116]"

definition S_KeyboardInterrupt :: pystr where (* KeyboardInterrupt *)
  "S_KeyboardInterrupt = [75, 101, 121, 98, 111, 97, 114, 100, 73, 110, 116, 101, 114, 114, 117, 112, 116]"

text \<open>\<open>sep.join(parts)\<close>.\<close>

fun str_join :: "pystr \<Rightarrow> pystr list \<Rightarrow> pystr" where
  "str_join sep [] = []"
| "str_join sep [x] = x"
| "str_join sep (x # y # ys) = x @ sep @ str_join sep (y # ys)"

text \<open>\<open>str(n)\<close> of an integer: decimal digits, with a minus sign when negative.\<close>

fun str_nat :: "nat \<Rightarrow> pystr" where
  "str_nat n = (if n < 10 then [48 + n] else str_nat (n div 10) @ [48 + n mod 10])"

definition str_int :: "int \<Rightarrow> pystr" where
  "str_int i = (if i < 0 then 45 # str_nat (nat (- i)) else str_nat (nat i))"

text \<open>Truthiness of optional attributes: \<open>None\<close>, the empty string, the empty list and
  the integer 0 are falsy.\<close>

definition truthy_str :: "pystr option \<Rightarrow> bool" where
  "truthy_str v = (case v of None \<Rightarrow> False | Some s \<Rightarrow> s \<noteq> [])"

definition truthy_int :: "int option \<Rightarrow> bool" where
  "truthy_int v = (case v of None \<Rightarrow> False | Some n \<Rightarrow> n \<noteq> 0)"

definition truthy_list :: "'a list option \<Rightarrow> bool" where
  "truthy_list v = (case v of None \<Rightarrow> False | Some xs \<Rightarrow> xs \<noteq> [])"

subsection \<open>Exceptions and the outcome of an awaited call\<close>

text \<open>
  The exception classes bot.py tells apart. \<open>TelegramForbiddenError\<close> and
  \<open>TelegramBadRequest\<close> are the two classes the sub-fetch wrappers name;
  \<open>OtherException\<close> is an instance of any other subclass of \<open>Exception\<close>
  (a network error, a flood-control error, a \<open>RuntimeError\<close>, ...), given by its class
  name and its \<open>str\<close>; \<open>KeyboardInterrupt\<close> is the operator interrupt;
  \<open>OtherBaseException\<close> is any other class that derives from \<open>BaseException\<close> but
  not from \<open>Exception\<close> (\<open>SystemExit\<close>, \<open>asyncio.CancelledError\<close>). The first
  three are what \<open>except Exception\<close> catches.
\<close>

datatype py_exception =
    TelegramForbiddenError pystr
  | TelegramBadRequest pystr
  | OtherException pystr pystr
  | KeyboardInterrupt
  | OtherBaseException pystr pystr

fun is_Exception :: "py_exception \<Rightarrow> bool" where
  "is_Exception (TelegramForbiddenError m) = True"
| "is_Exception (TelegramBadRequest m) = True"
| "is_Exception (OtherException c m) = True"
| "is_Exception KeyboardInterrupt = False"
| "is_Exception (OtherBaseException c m) = False"

text \<open>\<open>type(exc).__name__\<close> and \<open>str(exc)\<close>.\<close>

fun type_name :: "py_exception \<Rightarrow> pystr" where
  "type_name (TelegramForbiddenError m) = S_TelegramForbiddenError"
| "type_name (TelegramBadRequest m) = S_TelegramBadRequest"
| "type_name (OtherException c m) = c"
| "type_name KeyboardInterrupt = S_KeyboardInterrupt"
| "type_name (OtherBaseException c m) = c"

fun exc_str :: "py_exception \<Rightarrow> pystr" where
  "exc_str (TelegramForbiddenError m) = m"
| "exc_str (TelegramBadRequest m) = m"
| "exc_str (OtherException c m) = m"
| "exc_str KeyboardInterrupt = []"
| "exc_str (OtherBaseException c m) = m"

text \<open>An awaited call either raises (\<open>Inl\<close>) or returns a value (\<open>Inr\<close>).\<close>

type_synonym 'a outcome = "py_exception + 'a"

text \<open>What a function does besides returning: the messages it sends, the log records it
  writes, the polling runs it starts and the waits it makes, in order.\<close>

datatype effect =
    SendMessage int pystr
  | Answer pystr
  | LogDebug pystr
  | LogInfo pystr
  | LogWarning pystr
  | LogException pystr
  | StartPolling
  | Sleep nat

subsection \<open>Telegram objects\<close>

record user =
  u_id :: int
  u_is_bot :: bool
  u_full_name :: pystr
  u_username :: "pystr option"
  u_language_code :: "pystr option"
  u_is_premium :: "bool option"
  u_is_scam :: "bool option"
  u_is_fake :: "bool option"
  u_is_support :: "bool option"
  u_added_to_attachment_menu :: "bool option"
  u_can_join_groups :: "bool option"
  u_can_read_all_group_messages :: "bool option"
  u_supports_inline_queries :: "bool option"
  u_can_connect_to_business :: "bool option"
  u_has_main_web_app :: "bool option"
  u_emoji_status_custom_emoji_id :: "pystr option"
  u_personal_chat_id :: "int option"

record chat_member =
  cm_user :: user

record chat_permissions =
  can_send_messages :: "bool option"
  can_send_audios :: "bool option"
  can_send_documents :: "bool option"
  can_send_photos :: "bool option"
  can_send_videos :: "bool option"
  can_send_video_notes :: "bool option"
  can_send_voice_notes :: "bool option"
  can_send_polls :: "bool option"
  can_send_other_messages :: "bool option"
  can_add_web_page_previews :: "bool option"
  can_change_info :: "bool option"
  can_invite_users :: "bool option"
  can_pin_messages :: "bool option"
  can_manage_topics :: "bool option"

text \<open>\<open>c_type\<close> is the string bot.py computes as \<open>chat_type\<close>
  (\<open>chat.type.value\<close>, or \<open>str(chat.type)\<close>).\<close>

record chat =
  c_id :: int
  c_type :: pystr
  c_title :: "pystr option"
  c_username :: "pystr option"
  c_description :: "pystr option"
  c_bio :: "pystr option"
  c_invite_link :: "pystr option"
  c_has_protected_content :: "bool option"
  c_has_hidden_members :: "bool option"
  c_has_private_forwards :: "bool option"
  c_has_aggressive_anti_spam_enabled :: "bool option"
  c_join_to_send_messages :: "bool option"
  c_join_by_request :: "bool option"
  c_is_forum :: "bool option"
  c_linked_chat_id :: "int option"
  c_active_usernames :: "pystr list option"
  c_permissions :: "chat_permissions option"

record message_entity =
  me_type :: pystr
  me_custom_emoji_id :: "pystr option"

record forum_topic_created =
  ftc_name :: "pystr option"
  ftc_icon_color :: "int option"
  ftc_icon_custom_emoji_id :: "pystr option"

datatype message = Message
  (from_user: "user option")
  (entities: "message_entity list option")
  (caption_entities: "message_entity list option")
  (reply_to_message: "message option")
  (forum_topic_created: "forum_topic_created option")

text \<open>The Bot API as the handlers see it: what each awaited method answers.\<close>

record bot =
  send_message :: "int \<Rightarrow> pystr \<Rightarrow> unit outcome"
  get_chat :: "int \<Rightarrow> chat outcome"
  get_chat_member_count :: "int \<Rightarrow> int outcome"
  get_chat_administrators :: "int \<Rightarrow> chat_member list outcome"

section \<open>The functions of bot.py\<close>

subsection \<open>Operator identity and notification\<close>

text \<open>
  Module level, lines 28-33: \<open>OWNER_ID = int(OWNER_ID_RAW) if OWNER_ID_RAW else None\<close>,
  and \<open>None\<close> with a warning when \<open>int\<close> raises \<open>ValueError\<close>. The builtin
  \<open>int\<close> on a string is a parameter, \<open>py_int\<close>: \<open>None\<close> where it raises
  \<open>ValueError\<close>.
\<close>

definition OWNER_ID_init :: "(pystr \<Rightarrow> int option) \<Rightarrow> pystr option \<Rightarrow> int option \<times> effect list" where
  "OWNER_ID_init py_int OWNER_ID_RAW =
     (if truthy_str OWNER_ID_RAW then
        (case py_int (the OWNER_ID_RAW) of
           Some n \<Rightarrow> (Some n, [])
         | None \<Rightarrow> (None, [LogWarning (S_owner_id_not_numeric @ the OWNER_ID_RAW)]))
      else (None, []))"

text \<open>The decimal strings \<open>int\<close> accepts without signs, spaces or underscores, on
  which \<open>py_int\<close> can be run.\<close>

fun decimal_value :: "nat \<Rightarrow> pystr \<Rightarrow> int option" where
  "decimal_value acc [] = Some (int acc)"
| "decimal_value acc (c # cs) =
     (if 48 \<le> c \<and> c \<le> 57 then decimal_value (10 * acc + (c - 48)) cs else None)"

definition int_of_decimal :: "pystr \<Rightarrow> int option" where
  "int_of_decimal s = (if s = [] then None else decimal_value 0 s)"

definition yes_no :: "bool option \<Rightarrow> pystr" where
  "yes_no v =
     (if v = Some True then S_yes
      else if v = Some False then S_no
      else S_unknown)"

text \<open>\<open>notify_owner\<close>, lines 44-51. \<open>except Exception\<close> catches the instances of
  \<open>Exception\<close>; anything else raised by \<open>send_message\<close> leaves the function.\<close>

definition notify_owner :: "int option \<Rightarrow> bot \<Rightarrow> pystr \<Rightarrow> unit outcome \<times> effect list" where
  "notify_owner OWNER_ID b txt =
     (if \<not> truthy_int OWNER_ID then (Inr (), [])
      else
        (case send_message b (the OWNER_ID) txt of
           Inr u \<Rightarrow> (Inr (), [SendMessage (the OWNER_ID) txt])
         | Inl e \<Rightarrow>
             if is_Exception e
             then (Inr (), [SendMessage (the OWNER_ID) txt, LogException S_notify_failed])
             else (Inl e, [SendMessage (the OWNER_ID) txt])))"

subsection \<open>Field renderers\<close>

text \<open>\<open>format_user\<close>, lines 54-80: the list \<open>fields\<close>, then the joined report.\<close>

definition format_user_fields :: "user \<Rightarrow> pystr list" where
  "format_user_fields u =
     [ S_ID @ str_int (u_id u),
       S_Bot @ yes_no (Some (u_is_bot u)),
       S_Name @ u_full_name u,
       (if truthy_str (u_username u) then S_Username_at @ the (u_username u) else S_Username_none),
       S_Language @ (if truthy_str (u_language_code u) then the (u_language_code u) else S_unknown),
       S_Premium @ yes_no (u_is_premium u),
       S_Scam @ yes_no (u_is_scam u),
       S_Fake @ yes_no (u_is_fake u),
       S_Support @ yes_no (u_is_support u),
       S_Attachment_menu @ yes_no (u_added_to_attachment_menu u),
       S_Can_join_groups @ yes_no (u_can_join_groups u),
       S_Can_read_all @ yes_no (u_can_read_all_group_messages u),
       S_Supports_inline @ yes_no (u_supports_inline_queries u),
       S_Can_connect_business @ yes_no (u_can_connect_to_business u),
       S_Has_main_web_app @ yes_no (u_has_main_web_app u) ]
     @ (if truthy_str (u_emoji_status_custom_emoji_id u)
        then [S_Emoji_status @ the (u_emoji_status_custom_emoji_id u)] else [])
     @ (if truthy_int (u_personal_chat_id u)
        then [S_Personal_chat_ID @ str_int (the (u_personal_chat_id u))] else [])"

definition format_user :: "user \<Rightarrow> pystr" where
  "format_user u = str_join NL (format_user_fields u)"

text \<open>\<open>format_admins\<close>, lines 83-92. The display limit is only ever the default 6.\<close>

definition render_admin :: "chat_member \<Rightarrow> pystr" where
  "render_admin m = u_full_name (cm_user m) @ S_id_open @ str_int (u_id (cm_user m)) @ S_close"

definition format_admins :: "chat_member list \<Rightarrow> nat \<Rightarrow> pystr" where
  "format_admins admins limit =
     (if admins = [] then S_Admins_unavailable
      else
        (let shown = take limit admins;
             rendered = str_join S_comma (map render_admin shown);
             rendered' = (if length admins > limit
                          then rendered @ S_and_more @ str_nat (length admins - limit)
                          else rendered)
         in S_Admins_open @ str_nat (length admins) @ S_close_colon @ rendered'))"

text \<open>\<open>format_permissions\<close>, lines 95-122. \<open>mapping\<close> is the dictionary of the source
  in its insertion order, each attribute name standing for its reader.\<close>

definition mapping :: "((chat_permissions \<Rightarrow> bool option) \<times> pystr) list" where
  "mapping =
     [ (can_send_messages, L_messages),
       (can_send_audios, L_audios),
       (can_send_documents, L_documents),
       (can_send_photos, L_photos),
       (can_send_videos, L_videos),
       (can_send_video_notes, L_video_notes),
       (can_send_voice_notes, L_voice_notes),
       (can_send_polls, L_polls),
       (can_send_other_messages, L_other),
       (can_add_web_page_previews, L_previews),
       (can_change_info, L_change_info),
       (can_invite_users, L_invite),
       (can_pin_messages, L_pin),
       (can_manage_topics, L_topics) ]"

fun allowed_labels :: "chat_permissions \<Rightarrow> ((chat_permissions \<Rightarrow> bool option) \<times> pystr) list \<Rightarrow> pystr list" where
  "allowed_labels perms [] = []"
| "allowed_labels perms ((attr, label) # rest) =
     (if attr perms = Some True then label # allowed_labels perms rest
      else allowed_labels perms rest)"

definition format_permissions :: "chat \<Rightarrow> pystr" where
  "format_permissions c =
     (case c_permissions c of
        None \<Rightarrow> S_Perms_unavailable
      | Some perms \<Rightarrow>
          (let allowed = allowed_labels perms mapping
           in if allowed = [] then S_Perms_all_denied
              else S_Perms @ str_join S_comma allowed))"

subsection \<open>Custom emoji ids\<close>

text \<open>\<open>extract_custom_emoji_ids\<close>, lines 125-139.\<close>

fun collect_ids :: "message_entity list \<Rightarrow> pystr list" where
  "collect_ids [] = []"
| "collect_ids (entity # rest) =
     (if me_type entity = S_custom_emoji \<and> truthy_str (me_custom_emoji_id entity)
      then the (me_custom_emoji_id entity) # collect_ids rest
      else collect_ids rest)"

definition extract_custom_emoji_ids :: "message \<Rightarrow> pystr list" where
  "extract_custom_emoji_ids msg =
     collect_ids
       ((if truthy_list (entities msg) then the (entities msg) else [])
        @ (if truthy_list (caption_entities msg) then the (caption_entities msg) else []))"

text \<open>\<open>list(dict.fromkeys(ids))\<close>: a dictionary keeps its keys in insertion order and
  setting a key that is already there does not move it.\<close>

fun dict_fromkeys :: "pystr list \<Rightarrow> pystr list \<Rightarrow> pystr list" where
  "dict_fromkeys keys [] = keys"
| "dict_fromkeys keys (k # ks) =
     (if k \<in> set keys then dict_fromkeys keys ks else dict_fromkeys (keys @ [k]) ks)"

text \<open>\<open>custom_emoji_id_private\<close>, lines 354-364. \<open>answer\<close> is what awaiting
  \<open>message.answer\<close> gives for a text.\<close>

definition custom_emoji_id_private :: "message \<Rightarrow> (pystr \<Rightarrow> unit outcome) \<Rightarrow> unit outcome \<times> effect list" where
  "custom_emoji_id_private msg answer =
     (let ids = extract_custom_emoji_ids msg in
      if ids = [] then (Inr (), [])
      else
        (let unique_ids = dict_fromkeys [] ids;
             txt = (if length unique_ids = 1 then S_emoji_id_one @ hd unique_ids
                    else S_emoji_id_many @ str_join NL unique_ids)
         in (answer txt, [Answer txt])))"

subsection \<open>Assembling the chat report\<close>

text \<open>\<open>safe_get_member_count\<close>, lines 142-149, and \<open>safe_get_admins\<close>, lines
  152-159. Each has two \<open>except\<close> clauses, one per named class; an exception of any
  other class is not caught.\<close>

definition safe_get_member_count :: "bot \<Rightarrow> int \<Rightarrow> int option outcome \<times> effect list" where
  "safe_get_member_count b chat_id =
     (case get_chat_member_count b chat_id of
        Inr n \<Rightarrow> (Inr (Some n), [])
      | Inl (TelegramForbiddenError m) \<Rightarrow> (Inr None, [LogInfo S_count_forbidden])
      | Inl (TelegramBadRequest m) \<Rightarrow> (Inr None, [LogInfo S_count_failed])
      | Inl e \<Rightarrow> (Inl e, []))"

definition safe_get_admins :: "bot \<Rightarrow> int \<Rightarrow> chat_member list outcome \<times> effect list" where
  "safe_get_admins b chat_id =
     (case get_chat_administrators b chat_id of
        Inr admins \<Rightarrow> (Inr admins, [])
      | Inl (TelegramForbiddenError m) \<Rightarrow> (Inr [], [LogInfo S_admins_forbidden])
      | Inl (TelegramBadRequest m) \<Rightarrow> (Inr [], [LogInfo S_admins_failed])
      | Inl e \<Rightarrow> (Inl e, []))"

text \<open>\<open>fetch_topic_info\<close>, lines 226-266. It awaits nothing: the topic is read from
  the message the command replies to.\<close>

definition topic_data_of :: "message option \<Rightarrow> forum_topic_created option" where
  "topic_data_of msg =
     (case msg of
        None \<Rightarrow> None
      | Some m \<Rightarrow>
          (case reply_to_message m of
             None \<Rightarrow> None
           | Some replied \<Rightarrow> forum_topic_created replied))"

definition fetch_topic_info :: "int \<Rightarrow> message option \<Rightarrow> pystr list" where
  "fetch_topic_info thread_id msg =
     (case topic_data_of msg of
        None \<Rightarrow> [S_Topic_id @ str_int thread_id @ S_Topic_failed]
      | Some created \<Rightarrow>
          [ S_Topic @ (if truthy_str (ftc_name created) then the (ftc_name created) else S_Topic_noname),
            S_Thread_ID @ str_int thread_id ]
          @ (case ftc_icon_color created of
               None \<Rightarrow> []
             | Some icon_color \<Rightarrow> [S_Icon_color @ str_int icon_color])
          @ (if truthy_str (ftc_icon_custom_emoji_id created)
             then [S_Icon_emoji @ the (ftc_icon_custom_emoji_id created)] else []))"

text \<open>\<open>build_chat_info\<close>, lines 162-223: first the lines built from the three fetched
  values (lines 173-221), then the function with its three awaited fetches.\<close>

definition chat_lines ::
  "chat \<Rightarrow> int option \<Rightarrow> chat_member list \<Rightarrow> int option \<Rightarrow> bool \<Rightarrow> message option \<Rightarrow> pystr list" where
  "chat_lines c member_count admins thread_id is_topic_message msg =
     [ S_ID @ str_int (c_id c),
       S_Type @ c_type c ]
     @ (if truthy_str (c_title c) then [S_Title @ the (c_title c)] else [])
     @ (if truthy_str (c_username c) then [S_Public_name @ the (c_username c)] else [])
     @ (if truthy_str (c_description c) then [S_Description @ the (c_description c)] else [])
     @ (if truthy_str (c_bio c) then [S_Bio @ the (c_bio c)] else [])
     @ (if truthy_str (c_invite_link c) then [S_Invite_link @ the (c_invite_link c)] else [])
     @ [ S_Protected @ yes_no (c_has_protected_content c),
         S_Hidden_members @ yes_no (c_has_hidden_members c),
         S_Private_forwards @ yes_no (c_has_private_forwards c),
         S_Anti_spam @ yes_no (c_has_aggressive_anti_spam_enabled c),
         S_Join_to_send @ yes_no (c_join_to_send_messages c),
         S_Join_by_request @ yes_no (c_join_by_request c),
         S_Forum @ yes_no (c_is_forum c) ]
     @ (if truthy_int (c_linked_chat_id c)
        then [S_Linked_chat @ str_int (the (c_linked_chat_id c))] else [])
     @ (if truthy_list (c_active_usernames c)
        then [S_Extra_usernames
              @ str_join S_comma (map (\<lambda>u. S_at @ u) (the (c_active_usernames c)))]
        else [])
     @ (case member_count of
          None \<Rightarrow> []
        | Some n \<Rightarrow> [S_Members @ str_int n])
     @ [ format_permissions c,
         format_admins admins 6 ]
     @ (if c_is_forum c = Some True then
          (if is_topic_message \<and> truthy_int thread_id
           then fetch_topic_info (the thread_id) msg
           else [S_Forum_hint])
        else [])"

definition build_chat_info ::
  "bot \<Rightarrow> int \<Rightarrow> int option \<Rightarrow> bool \<Rightarrow> message option \<Rightarrow> pystr outcome \<times> effect list" where
  "build_chat_info b chat_id thread_id is_topic_message msg =
     (case get_chat b chat_id of
        Inl e \<Rightarrow> (Inl e, [])
      | Inr c \<Rightarrow>
          (case safe_get_member_count b chat_id of
             (Inl e, log1) \<Rightarrow> (Inl e, log1)
           | (Inr member_count, log1) \<Rightarrow>
               (case safe_get_admins b chat_id of
                  (Inl e, log2) \<Rightarrow> (Inl e, log1 @ log2)
                | (Inr admins, log2) \<Rightarrow>
                    (Inr (str_join NL
                            (chat_lines c member_count admins thread_id is_topic_message msg)),
                     log1 @ log2))))"

subsection \<open>The error reporter\<close>

text \<open>
  The update of an error event, as far as \<open>handle_error\<close> looks at it: whether it has
  a \<open>model_dump\<close> or a \<open>dict\<close> method, and what formatting the result of each way of
  serialising it gives: the text \<open>f"{raw}"\<close>, or the exception raised on the way.
\<close>

record update =
  upd_has_model_dump :: bool
  upd_model_dump :: "pystr outcome"
  upd_has_dict :: bool
  upd_dict :: "pystr outcome"
  upd_str :: "pystr outcome"

record error_event =
  ev_exception :: py_exception
  ev_update :: "update option"

text \<open>Lines 275-286: \<open>update_dump\<close>.\<close>

definition serialize_update :: "update option \<Rightarrow> pystr outcome \<times> effect list" where
  "serialize_update upd =
     (case upd of
        None \<Rightarrow> (Inr [], [])
      | Some u \<Rightarrow>
          (case (if upd_has_model_dump u then upd_model_dump u
                 else if upd_has_dict u then upd_dict u
                 else upd_str u) of
             Inr raw \<Rightarrow> (Inr (S_Update @ raw), [])
           | Inl e \<Rightarrow>
               if is_Exception e then (Inr [], [LogDebug S_serialize_failed])
               else (Inl e, [])))"

text \<open>Lines 288-290: \<open>preview\<close>.\<close>

definition preview_of :: "pystr \<Rightarrow> pystr" where
  "preview_of update_dump =
     (if length update_dump > 1500 then take 1500 update_dump @ S_ellipsis else update_dump)"

text \<open>Lines 292-298: \<open>report\<close>, the non-empty parts joined by newlines.\<close>

definition error_report :: "py_exception \<Rightarrow> pystr \<Rightarrow> pystr \<Rightarrow> pystr" where
  "error_report exc timestamp preview =
     str_join NL
       (filter (\<lambda>part. part \<noteq> [])
          [ S_Error_header @ timestamp,
            type_name exc @ S_colon @ exc_str exc,
            preview ])"

text \<open>\<open>handle_error\<close>, lines 269-302. \<open>OWNER_ID\<close> is the module's global and
  \<open>timestamp\<close> the formatted clock reading.\<close>

definition handle_error ::
  "int option \<Rightarrow> pystr \<Rightarrow> error_event \<Rightarrow> bot \<Rightarrow> bool outcome \<times> effect list" where
  "handle_error OWNER_ID timestamp event b =
     (case serialize_update (ev_update event) of
        (Inl e, log1) \<Rightarrow> (Inl e, log1)
      | (Inr update_dump, log1) \<Rightarrow>
          (let report = error_report (ev_exception event) timestamp (preview_of update_dump) in
           case notify_owner OWNER_ID b report of
             (Inl e, log2) \<Rightarrow> (Inl e, log1 @ log2)
           | (Inr u, log2) \<Rightarrow>
               (Inr True, log1 @ log2 @ [LogException S_handler_exception])))"

subsection \<open>The supervisor loop\<close>





section \<open>Sample objects\<close>

text \<open>Concrete users, chats, bots and events, on which the theorems below are run.\<close>

definition sample_user :: "int \<Rightarrow> pystr \<Rightarrow> user" where
  "sample_user i n =
     \<lparr> u_id = i, u_is_bot = False, u_full_name = n, u_username = None,
       u_language_code = None, u_is_premium = None, u_is_scam = None, u_is_fake = None,
       u_is_support = None, u_added_to_attachment_menu = None, u_can_join_groups = None,
       u_can_read_all_group_messages = None, u_supports_inline_queries = None,
       u_can_connect_to_business = None, u_has_main_web_app = None,
       u_emoji_status_custom_emoji_id = None, u_personal_chat_id = None \<rparr>"

definition sample_admin :: chat_member where
  "sample_admin = \<lparr> cm_user = sample_user 7 (ascii ''Ann'') \<rparr>"

definition no_permissions :: chat_permissions where
  "no_permissions =
     \<lparr> can_send_messages = None, can_send_audios = None, can_send_documents = None,
       can_send_photos = None, can_send_videos = None, can_send_video_notes = None,
       can_send_voice_notes = None, can_send_polls = None, can_send_other_messages = None,
       can_add_web_page_previews = None, can_change_info = None, can_invite_users = None,
       can_pin_messages = None, can_manage_topics = None \<rparr>"

definition send_and_pin :: chat_permissions where
  "send_and_pin = no_permissions \<lparr> can_send_messages := Some True, can_pin_messages := Some True \<rparr>"

definition sample_chat :: chat where
  "sample_chat =
     \<lparr> c_id = -100, c_type = ascii ''supergroup'', c_title = Some (ascii ''Lab''),
       c_username = None, c_description = None, c_bio = None, c_invite_link = None,
       c_has_protected_content = None, c_has_hidden_members = None,
       c_has_private_forwards = None, c_has_aggressive_anti_spam_enabled = None,
       c_join_to_send_messages = None, c_join_by_request = None, c_is_forum = None,
       c_linked_chat_id = None, c_active_usernames = None,
       c_permissions = Some send_and_pin \<rparr>"

fun always_ok :: "int \<Rightarrow> pystr \<Rightarrow> unit outcome" where
  "always_ok chat_id txt = Inr ()"

fun always_network_error :: "int \<Rightarrow> pystr \<Rightarrow> unit outcome" where
  "always_network_error chat_id txt =
     Inl (OtherException (ascii ''TelegramNetworkError'') (ascii ''timeout''))"

fun the_sample_chat :: "int \<Rightarrow> chat outcome" where
  "the_sample_chat chat_id = Inr sample_chat"

fun three_members :: "int \<Rightarrow> int outcome" where
  "three_members chat_id = Inr 3"

fun one_admin :: "int \<Rightarrow> chat_member list outcome" where
  "one_admin chat_id = Inr [sample_admin]"

fun zero_admins :: "int \<Rightarrow> chat_member list outcome" where
  "zero_admins chat_id = Inr []"

fun admins_forbidden :: "int \<Rightarrow> chat_member list outcome" where
  "admins_forbidden chat_id = Inl (TelegramForbiddenError (ascii ''bot is not a member''))"

fun admins_network_error :: "int \<Rightarrow> chat_member list outcome" where
  "admins_network_error chat_id =
     Inl (OtherException (ascii ''TelegramNetworkError'') (ascii ''timeout''))"

definition sample_bot :: bot where
  "sample_bot =
     \<lparr> send_message = always_ok, get_chat = the_sample_chat,
       get_chat_member_count = three_members, get_chat_administrators = one_admin \<rparr>"

definition deaf_bot :: bot where (* every send_message fails *)
  "deaf_bot = sample_bot \<lparr> send_message := always_network_error \<rparr>"

definition long_update :: update where (* structured serialisation gives 1600 characters *)
  "long_update =
     \<lparr> upd_has_model_dump = True, upd_model_dump = Inr (replicate 1600 97),
       upd_has_dict = True, upd_dict = Inr (replicate 1600 97),
       upd_str = Inr (ascii ''Update(update_id=1)'') \<rparr>"

definition broken_update :: update where (* structured serialisation raises *)
  "broken_update =
     \<lparr> upd_has_model_dump = True,
       upd_model_dump = Inl (OtherException (ascii ''TypeError'') (ascii ''unserializable'')),
       upd_has_dict = True, upd_dict = Inr (ascii ''{}''),
       upd_str = Inr (ascii ''Update(update_id=1)'') \<rparr>"

definition plain_update :: update where (* an object with neither model_dump nor dict *)
  "plain_update =
     \<lparr> upd_has_model_dump = False, upd_model_dump = Inr [],
       upd_has_dict = False, upd_dict = Inr [],
       upd_str = Inr (ascii ''Update(update_id=1)'') \<rparr>"

definition sample_exception :: py_exception where
  "sample_exception = OtherException (ascii ''ValueError'') (ascii ''boom'')"

definition sample_event :: "update option \<Rightarrow> error_event" where
  "sample_event upd = \<lparr> ev_exception = sample_exception, ev_update = upd \<rparr>"

definition sample_time :: pystr where
  "sample_time = ascii ''2024-01-01 00:00:00 UTC''"

definition emoji_entity :: "pystr \<Rightarrow> message_entity" where
  "emoji_entity i = \<lparr> me_type = S_custom_emoji, me_custom_emoji_id = Some i \<rparr>"

definition bold_entity :: message_entity where
  "bold_entity = \<lparr> me_type = ascii ''bold'', me_custom_emoji_id = None \<rparr>"

definition emoji_message :: "pystr \<Rightarrow> pystr \<Rightarrow> message" where (* annotations referencing A, B, A *)
  "emoji_message a b =
     Message None (Some [emoji_entity a, bold_entity, emoji_entity b, emoji_entity a]) None None None"

fun answer_ok :: "pystr \<Rightarrow> unit outcome" where
  "answer_ok txt = Inr ()"

fun count_network_error :: "int \<Rightarrow> int outcome" where
  "count_network_error chat_id =
     Inl (OtherException (ascii ''TelegramNetworkError'') (ascii ''timeout''))"

definition bot_zero_admins :: bot where (* the admin list is fetched and is empty *)
  "bot_zero_admins = sample_bot \<lparr> get_chat_administrators := zero_admins \<rparr>"

definition bot_admins_forbidden :: bot where (* the admin list may not be read *)
  "bot_admins_forbidden = sample_bot \<lparr> get_chat_administrators := admins_forbidden \<rparr>"

definition bot_admins_network_error :: bot where (* the admin-list fetch times out *)
  "bot_admins_network_error = sample_bot \<lparr> get_chat_administrators := admins_network_error \<rparr>"

definition bot_count_network_error :: bot where (* the member-count fetch times out *)
  "bot_count_network_error = sample_bot \<lparr> get_chat_member_count := count_network_error \<rparr>"





section \<open>Notions used in the statements\<close>

text \<open>An awaited call that fails: whatever it raises is an instance of
  \<open>Exception\<close>, not an interrupt, a cancellation or an exit.\<close>

definition fails_only :: "'a outcome \<Rightarrow> bool" where
  "fails_only r = (case r of Inl e \<Rightarrow> is_Exception e | Inr v \<Rightarrow> True)"

definition update_fails_only :: "update option \<Rightarrow> bool" where
  "update_fails_only upd =
     (case upd of
        None \<Rightarrow> True
      | Some u \<Rightarrow> fails_only (upd_model_dump u) \<and> fails_only (upd_dict u) \<and> fails_only (upd_str u))"

text \<open>Duplicates removed, first-seen order preserved: each element is kept where it
  first occurs, and its later occurrences are dropped.\<close>

function first_seen :: "'a list \<Rightarrow> 'a list" where
  "first_seen [] = []"
| "first_seen (x # xs) = x # first_seen (filter (\<lambda>y. y \<noteq> x) xs)"
  by pat_completeness auto
termination
  by (relation "measure length") (auto simp: less_Suc_eq_le)

text \<open>The tri-state flags of a user report in their fixed order, each with the label
  that opens its line.\<close>

definition user_flags :: "user \<Rightarrow> (pystr \<times> bool option) list" where
  "user_flags u =
     [ (S_Bot, Some (u_is_bot u)),
       (S_Premium, u_is_premium u),
       (S_Scam, u_is_scam u),
       (S_Fake, u_is_fake u),
       (S_Support, u_is_support u),
       (S_Attachment_menu, u_added_to_attachment_menu u),
       (S_Can_join_groups, u_can_join_groups u),
       (S_Can_read_all, u_can_read_all_group_messages u),
       (S_Supports_inline, u_supports_inline_queries u),
       (S_Can_connect_business, u_can_connect_to_business u),
       (S_Has_main_web_app, u_has_main_web_app u) ]"

definition flag_line :: "pystr \<times> bool option \<Rightarrow> pystr" where
  "flag_line f = fst f @ yes_no (snd f)"

text \<open>The two failures the sub-fetch wrappers name: access forbidden and bad request.\<close>

fun soft_failure :: "py_exception \<Rightarrow> bool" where
  "soft_failure (TelegramForbiddenError m) = True"
| "soft_failure (TelegramBadRequest m) = True"
| "soft_failure (OtherException c m) = False"
| "soft_failure KeyboardInterrupt = False"
| "soft_failure (OtherBaseException c m) = False"

text \<open>A sub-fetch that succeeds or fails softly.\<close>

definition soft_or_ok :: "'a outcome \<Rightarrow> bool" where
  "soft_or_ok r = (case r of Inl e \<Rightarrow> soft_failure e | Inr v \<Rightarrow> True)"

text \<open>What a sub-fetch contributes to the report once it has degraded: no member count,
  no admins.\<close>

definition degraded_count :: "int outcome \<Rightarrow> int option" where
  "degraded_count r = (case r of Inr n \<Rightarrow> Some n | Inl e \<Rightarrow> None)"

definition degraded_admins :: "chat_member list outcome \<Rightarrow> chat_member list" where
  "degraded_admins r = (case r of Inr admins \<Rightarrow> admins | Inl e \<Rightarrow> [])"






section \<open>Operator notification\<close>

text \<open>
  C10. For every notification text, \<open>notify_owner\<close> sends nothing and returns normally
  whenever the configured operator identity is falsy: when the environment value is
  absent, empty or not a number (\<open>OWNER_ID\<close> is \<open>None\<close>), and also when it parses
  to the number 0. It returns without any effect exactly in these cases.
\<close>

theorem notify_owner_falsy_owner_is_silent:
  "notify_owner None b txt = (Inr (), [])
   \<and> notify_owner (Some 0) b txt = (Inr (), [])
   \<and> ((notify_owner OWNER_ID b txt = (Inr (), [])) = (OWNER_ID = None \<or> OWNER_ID = Some 0))
   \<and> OWNER_ID_init py_int None = (None, [])
   \<and> OWNER_ID_init py_int (Some []) = (None, [])
   \<and> (py_int s = None \<longrightarrow> fst (OWNER_ID_init py_int (Some s)) = None)
   \<and> (s \<noteq> [] \<and> py_int s = Some 0 \<longrightarrow>
        OWNER_ID_init py_int (Some s) = (Some 0, [])
        \<and> notify_owner (fst (OWNER_ID_init py_int (Some s))) b txt = (Inr (), []))"
  by (auto simp: notify_owner_def OWNER_ID_init_def truthy_int_def truthy_str_def
           split: option.splits sum.splits)

theorem notify_owner_falsy_owner_is_silent_witness:
  "ascii ''0'' \<noteq> [] \<and> int_of_decimal (ascii ''0'') = Some 0
   \<and> OWNER_ID_init int_of_decimal (Some (ascii ''0'')) = (Some 0, [])
   \<and> notify_owner (fst (OWNER_ID_init int_of_decimal (Some (ascii ''0'')))) sample_bot (ascii ''down'')
       = (Inr (), [])
   \<and> int_of_decimal (ascii ''abc'') = None
   \<and> fst (OWNER_ID_init int_of_decimal (Some (ascii ''abc''))) = None"
  using notify_owner_falsy_owner_is_silent [of sample_bot "ascii ''down''" None int_of_decimal "ascii ''0''"]
    notify_owner_falsy_owner_is_silent [of sample_bot "ascii ''down''" None int_of_decimal "ascii ''abc''"]
  by (simp add: ascii_def int_of_decimal_def)

section \<open>The error reporter\<close>

subsection \<open>The shape of the report\<close>

lemma error_report_eq:
  "error_report exc ts p =
     S_Error_header @ ts @ NL @ type_name exc @ S_colon @ exc_str exc
       @ (if p = [] then [] else NL @ p)"
  by (simp add: error_report_def S_Error_header_def S_colon_def)

lemma preview_of_Nil: "(preview_of d = []) = (d = [])"
  by (auto simp: preview_of_def S_ellipsis_def)

lemma preview_of_cut:
  "preview_of d = take 1500 d @ (if 1500 < length d then S_ellipsis else [])"
  by (simp add: preview_of_def)

lemma handle_error_sends:
  assumes "serialize_update (ev_update event) = (Inr d, log1)" and "truthy_int OWNER_ID"
  shows "SendMessage (the OWNER_ID) (error_report (ev_exception event) ts (preview_of d))
      \<in> set (snd (handle_error OWNER_ID ts event b))"
proof (cases "send_message b (the OWNER_ID) (error_report (ev_exception event) ts (preview_of d))")
  case (Inl e)
  then show ?thesis using assms
    by (cases "is_Exception e") (simp_all add: handle_error_def notify_owner_def)
next
  case (Inr u)
  then show ?thesis using assms
    by (simp add: handle_error_def notify_owner_def)
qed


subsection \<open>Failures inside the reporter\<close>

lemma serialize_update_fails_only:
  "update_fails_only upd \<Longrightarrow> \<exists>d l. serialize_update upd = (Inr d, l)"
  by (auto simp: update_fails_only_def serialize_update_def fails_only_def
           split: option.splits sum.splits)

lemma notify_owner_fails_only:
  "fails_only (send_message b (the OWNER_ID) txt) \<Longrightarrow> fst (notify_owner OWNER_ID b txt) = Inr ()"
  by (auto simp: notify_owner_def fails_only_def split: sum.splits)

lemma handle_error_unfold:
  "serialize_update (ev_update event) = (Inr d, log1) \<Longrightarrow>
   notify_owner OWNER_ID b (error_report (ev_exception event) ts (preview_of d)) = (Inr (), log2) \<Longrightarrow>
   handle_error OWNER_ID ts event b = (Inr True, log1 @ log2 @ [LogException S_handler_exception])"
  by (simp add: handle_error_def)


lemma handle_error_no_dump:
  "serialize_update (ev_update event) = (Inr [], log1) \<Longrightarrow>
   handle_error OWNER_ID ts event b =
     (case notify_owner OWNER_ID b
             (S_Error_header @ ts @ NL @ type_name (ev_exception event) @ S_colon
                @ exc_str (ev_exception event)) of
        (Inl e, log2) \<Rightarrow> (Inl e, log1 @ log2)
      | (Inr u, log2) \<Rightarrow> (Inr True, log1 @ log2 @ [LogException S_handler_exception]))"
  by (simp add: handle_error_def error_report_eq preview_of_Nil)

text \<open>
  C8. The serialised triggering-event body in an error report is capped at 1500
  characters: the preview is the first 1500 characters of the dump, followed by the
  ellipsis marker exactly when the dump was longer than 1500 characters; a dump of at most
  1500 characters is passed on unchanged, with no marker. This preview is the last part
  of the report handed to the operator.
\<close>

theorem preview_capped_at_1500:
  "preview_of d = take 1500 d @ (if 1500 < length d then S_ellipsis else [])
   \<and> (length d \<le> 1500 \<longrightarrow> preview_of d = d)
   \<and> (1500 < length d \<longrightarrow> preview_of d = take 1500 d @ S_ellipsis \<and> length (preview_of d) = 1501)
   \<and> length S_ellipsis = 1
   \<and> (serialize_update (ev_update event) = (Inr d, log1) \<and> truthy_int OWNER_ID \<longrightarrow>
        SendMessage (the OWNER_ID)
          (S_Error_header @ ts @ NL @ type_name (ev_exception event) @ S_colon
             @ exc_str (ev_exception event)
             @ (if d = [] then []
                else NL @ take 1500 d @ (if 1500 < length d then S_ellipsis else [])))
          \<in> set (snd (handle_error OWNER_ID ts event b)))"
proof -
  have a: "length d \<le> 1500 \<longrightarrow> preview_of d = d"
    by (simp add: preview_of_def)
  have b: "1500 < length d \<longrightarrow> preview_of d = take 1500 d @ S_ellipsis \<and> length (preview_of d) = 1501"
    by (simp add: preview_of_def S_ellipsis_def)
  have c: "length S_ellipsis = 1"
    by (simp add: S_ellipsis_def)
  have rep: "error_report (ev_exception event) ts (preview_of d) =
      S_Error_header @ ts @ NL @ type_name (ev_exception event) @ S_colon
        @ exc_str (ev_exception event)
        @ (if d = [] then []
           else NL @ take 1500 d @ (if 1500 < length d then S_ellipsis else []))"
    unfolding error_report_eq preview_of_Nil
    by (simp only: preview_of_cut)
  have e: "serialize_update (ev_update event) = (Inr d, log1) \<and> truthy_int OWNER_ID \<longrightarrow>
        SendMessage (the OWNER_ID)
          (S_Error_header @ ts @ NL @ type_name (ev_exception event) @ S_colon
             @ exc_str (ev_exception event)
             @ (if d = [] then []
                else NL @ take 1500 d @ (if 1500 < length d then S_ellipsis else [])))
          \<in> set (snd (handle_error OWNER_ID ts event b))"
    using handle_error_sends [of event d log1 OWNER_ID ts b]
    by (simp only: rep) blast
  from preview_of_cut a b c e show ?thesis by blast
qed

theorem preview_capped_at_1500_witness:
  "1500 < length (S_Update @ replicate 1600 (97::nat))
   \<and> serialize_update (ev_update (sample_event (Some long_update)))
       = (Inr (S_Update @ replicate 1600 97), [])
   \<and> truthy_int (Some 7)
   \<and> preview_of (S_Update @ replicate 1600 97) = S_Update @ replicate 1492 97 @ S_ellipsis
   \<and> length (preview_of (S_Update @ replicate 1600 97)) = 1501
   \<and> preview_of (S_Update @ replicate 20 97) = S_Update @ replicate 20 97
   \<and> SendMessage 7
        (S_Error_header @ sample_time @ NL @ ascii ''ValueError'' @ S_colon @ ascii ''boom''
           @ NL @ S_Update @ replicate 1492 97 @ S_ellipsis)
       \<in> set (snd (handle_error (Some 7) sample_time (sample_event (Some long_update)) sample_bot))"
  using preview_capped_at_1500 [of "S_Update @ replicate 1600 97"
          "sample_event (Some long_update)" "[]" "Some 7" sample_time sample_bot]
    preview_capped_at_1500 [of "S_Update @ replicate 20 97"
          "sample_event (Some long_update)" "[]" "Some 7" sample_time sample_bot]
  by (simp add: S_Update_def serialize_update_def sample_event_def long_update_def
        truthy_int_def sample_exception_def)

text \<open>
  C5. For every failure and every triggering event, the Error Reporter never itself
  raises: \<open>handle_error\<close> returns \<open>True\<close> whenever serialising the event and
  delivering the notification can only fail (raise instances of \<open>Exception\<close>). A
  failure of the delivery is caught and only logged: the send attempt is followed by one
  log record and the call still returns normally.
\<close>

theorem handle_error_never_raises:
  assumes send: "\<forall>chat_id txt. fails_only (send_message b chat_id txt)"
      and upd: "update_fails_only (ev_update event)"
  shows "fst (handle_error OWNER_ID ts event b) = Inr True
     \<and> (\<forall>d log1 e.
           serialize_update (ev_update event) = (Inr d, log1)
           \<and> truthy_int OWNER_ID
           \<and> send_message b (the OWNER_ID) (error_report (ev_exception event) ts (preview_of d)) = Inl e
           \<longrightarrow> handle_error OWNER_ID ts event b =
                 (Inr True,
                  log1 @ [SendMessage (the OWNER_ID) (error_report (ev_exception event) ts (preview_of d)),
                          LogException S_notify_failed,
                          LogException S_handler_exception]))"
proof -
  obtain d log1 where ser: "serialize_update (ev_update event) = (Inr d, log1)"
    using serialize_update_fails_only [OF upd] by blast
  let ?report = "error_report (ev_exception event) ts (preview_of d)"
  have "fst (notify_owner OWNER_ID b ?report) = Inr ()"
    using send by (simp add: notify_owner_fails_only)
  then obtain log2 where sent: "notify_owner OWNER_ID b ?report = (Inr (), log2)"
    by (cases "notify_owner OWNER_ID b ?report") simp
  have returns: "fst (handle_error OWNER_ID ts event b) = Inr True"
    using handle_error_unfold [OF ser sent] by simp
  have logged: "handle_error OWNER_ID ts event b =
        (Inr True, log1 @ [SendMessage (the OWNER_ID) ?report, LogException S_notify_failed,
                           LogException S_handler_exception])"
    if "truthy_int OWNER_ID" and "send_message b (the OWNER_ID) ?report = Inl e" for e
  proof -
    have "is_Exception e"
      using send that(2) by (metis fails_only_def sum.simps(5))
    then have "notify_owner OWNER_ID b ?report =
        (Inr (), [SendMessage (the OWNER_ID) ?report, LogException S_notify_failed])"
      using that by (simp add: notify_owner_def)
    from handle_error_unfold [OF ser this] show ?thesis by simp
  qed
  show ?thesis
    using returns logged ser by auto
qed

theorem handle_error_never_raises_witness:
  "(\<forall>chat_id txt. fails_only (send_message deaf_bot chat_id txt))
   \<and> update_fails_only (ev_update (sample_event (Some broken_update)))
   \<and> handle_error (Some 7) sample_time (sample_event (Some broken_update)) deaf_bot =
       (Inr True,
        [LogDebug S_serialize_failed,
         SendMessage 7 (error_report sample_exception sample_time []),
         LogException S_notify_failed,
         LogException S_handler_exception])"
proof -
  have send: "\<forall>chat_id txt. fails_only (send_message deaf_bot chat_id txt)"
    by (simp add: deaf_bot_def fails_only_def)
  have upd: "update_fails_only (ev_update (sample_event (Some broken_update)))"
    by (simp add: update_fails_only_def sample_event_def broken_update_def fails_only_def)
  have ser: "serialize_update (ev_update (sample_event (Some broken_update)))
      = (Inr [], [LogDebug S_serialize_failed])"
    by (simp add: serialize_update_def sample_event_def broken_update_def)
  have pre: "preview_of [] = []"
    by (simp add: preview_of_def)
  have fails: "send_message deaf_bot (the (Some 7)) (error_report (ev_exception (sample_event (Some broken_update))) sample_time (preview_of []))
       = Inl (OtherException (ascii ''TelegramNetworkError'') (ascii ''timeout''))"
    by (simp add: deaf_bot_def)
  have "handle_error (Some 7) sample_time (sample_event (Some broken_update)) deaf_bot =
       (Inr True,
        [LogDebug S_serialize_failed] @
        [SendMessage (the (Some 7)) (error_report (ev_exception (sample_event (Some broken_update))) sample_time (preview_of [])),
         LogException S_notify_failed,
         LogException S_handler_exception])"
    using handle_error_never_raises [OF send upd, of "Some 7" sample_time] ser fails
    by (simp add: truthy_int_def)
  then show ?thesis
    using send upd by (simp add: pre sample_event_def)
qed

text \<open>
  C4 as stated: when structured serialisation of the triggering event fails, the report
  still carries a plain textual representation of the event. It does not: for an update
  whose \<open>model_dump\<close> raises, the \<open>except\<close> clause only logs, the dump stays
  empty, and the report sent is the timestamp line and the failure line, although
  \<open>str\<close> of the update was available.
\<close>

theorem failed_serialization_omits_event_counterexample:
  "upd_str broken_update = Inr (ascii ''Update(update_id=1)'')
   \<and> handle_error (Some 7) sample_time (sample_event (Some broken_update)) sample_bot =
       (Inr True,
        [LogDebug S_serialize_failed,
         SendMessage 7
           (S_Error_header @ sample_time @ NL @ ascii ''ValueError'' @ S_colon @ ascii ''boom''),
         LogException S_handler_exception])
   \<and> \<not> sublist (ascii ''Update'')
         (S_Error_header @ sample_time @ NL @ ascii ''ValueError'' @ S_colon @ ascii ''boom'')"
proof -
  have ser: "serialize_update (ev_update (sample_event (Some broken_update)))
      = (Inr [], [LogDebug S_serialize_failed])"
    by (simp add: serialize_update_def sample_event_def broken_update_def)
  have a: "upd_str broken_update = Inr (ascii ''Update(update_id=1)'')"
    by (simp add: broken_update_def)
  have b: "handle_error (Some 7) sample_time (sample_event (Some broken_update)) sample_bot =
       (Inr True,
        [LogDebug S_serialize_failed,
         SendMessage 7
           (S_Error_header @ sample_time @ NL @ ascii ''ValueError'' @ S_colon @ ascii ''boom''),
         LogException S_handler_exception])"
    unfolding handle_error_no_dump [OF ser]
    by (simp add: notify_owner_def truthy_int_def sample_bot_def sample_event_def
          sample_exception_def)
  have c: "\<not> sublist (ascii ''Update'')
         (S_Error_header @ sample_time @ NL @ ascii ''ValueError'' @ S_colon @ ascii ''boom'')"
    by (simp add: ascii_def S_Error_header_def sample_time_def NL_def S_colon_def
          sublist_Cons_right prefix_Cons)
  from a b c show ?thesis by blast
qed

text \<open>
  C4, amended. When the structured serialisation of the triggering event (its
  \<open>model_dump\<close>, or its \<open>dict\<close> when it has no \<open>model_dump\<close>) raises, the failure
  is logged at debug level and the report omits the event: it is the timestamp line and
  the failure line only. The plain textual representation \<open>str(update)\<close> is used
  only for an update that offers neither \<open>model_dump\<close> nor \<open>dict\<close>.
\<close>

theorem serialization_failure_omits_event:
  "(ev_update event = Some u \<and> \<not> upd_has_model_dump u \<and> \<not> upd_has_dict u \<and> upd_str u = Inr s
      \<longrightarrow> serialize_update (ev_update event) = (Inr (S_Update @ s), []))
   \<and> (ev_update event = Some u \<and> is_Exception e
        \<and> (upd_has_model_dump u \<and> upd_model_dump u = Inl e
            \<or> \<not> upd_has_model_dump u \<and> upd_has_dict u \<and> upd_dict u = Inl e)
      \<longrightarrow> serialize_update (ev_update event) = (Inr [], [LogDebug S_serialize_failed])
          \<and> handle_error OWNER_ID ts event b =
              (case notify_owner OWNER_ID b
                      (S_Error_header @ ts @ NL @ type_name (ev_exception event) @ S_colon
                         @ exc_str (ev_exception event)) of
                 (Inl e', log2) \<Rightarrow> (Inl e', LogDebug S_serialize_failed # log2)
               | (Inr v, log2) \<Rightarrow>
                   (Inr True, LogDebug S_serialize_failed # log2 @ [LogException S_handler_exception])))"
proof -
  have plain: "serialize_update (ev_update event) = (Inr (S_Update @ s), [])"
    if "ev_update event = Some u" "\<not> upd_has_model_dump u" "\<not> upd_has_dict u" "upd_str u = Inr s"
    using that by (simp add: serialize_update_def)
  have failed: "serialize_update (ev_update event) = (Inr [], [LogDebug S_serialize_failed])"
    if "ev_update event = Some u" "is_Exception e"
       "upd_has_model_dump u \<and> upd_model_dump u = Inl e
         \<or> \<not> upd_has_model_dump u \<and> upd_has_dict u \<and> upd_dict u = Inl e"
    using that by (auto simp: serialize_update_def)
  show ?thesis
    using plain failed handle_error_no_dump [of event "[LogDebug S_serialize_failed]" OWNER_ID ts b]
    by (auto split: prod.splits sum.splits)
qed

theorem serialization_failure_omits_event_witness:
  "ev_update (sample_event (Some plain_update)) = Some plain_update
   \<and> \<not> upd_has_model_dump plain_update \<and> \<not> upd_has_dict plain_update
   \<and> upd_str plain_update = Inr (ascii ''Update(update_id=1)'')
   \<and> serialize_update (ev_update (sample_event (Some plain_update)))
       = (Inr (S_Update @ ascii ''Update(update_id=1)''), [])
   \<and> ev_update (sample_event (Some broken_update)) = Some broken_update
   \<and> is_Exception (OtherException (ascii ''TypeError'') (ascii ''unserializable''))
   \<and> upd_has_model_dump broken_update
   \<and> upd_model_dump broken_update = Inl (OtherException (ascii ''TypeError'') (ascii ''unserializable''))
   \<and> serialize_update (ev_update (sample_event (Some broken_update)))
       = (Inr [], [LogDebug S_serialize_failed])
   \<and> handle_error None sample_time (sample_event (Some broken_update)) sample_bot
       = (Inr True, [LogDebug S_serialize_failed, LogException S_handler_exception])"
  using serialization_failure_omits_event [of "sample_event (Some plain_update)" plain_update
          "ascii ''Update(update_id=1)''" "OtherException (ascii ''TypeError'') (ascii ''unserializable'')"
          None sample_time sample_bot]
    serialization_failure_omits_event [of "sample_event (Some broken_update)" broken_update
          "ascii ''Update(update_id=1)''" "OtherException (ascii ''TypeError'') (ascii ''unserializable'')"
          None sample_time sample_bot]
  by (simp add: sample_event_def plain_update_def broken_update_def notify_owner_def truthy_int_def)

section \<open>Custom emoji ids\<close>

lemma dict_fromkeys_first_seen:
  "distinct keys \<Longrightarrow>
   dict_fromkeys keys ks = keys @ first_seen (filter (\<lambda>k. k \<notin> set keys) ks)"
proof (induction ks arbitrary: keys)
  case Nil
  then show ?case by simp
next
  case (Cons k ks)
  show ?case
  proof (cases "k \<in> set keys")
    case True
    then show ?thesis using Cons by simp
  next
    case False
    have "filter (\<lambda>y. y \<noteq> k) (filter (\<lambda>x. x \<notin> set keys) ks)
        = filter (\<lambda>x. x \<notin> set (keys @ [k])) ks"
      by (auto intro: filter_cong)
    moreover have "distinct (keys @ [k])"
      using False Cons.prems by simp
    ultimately show ?thesis
      using False Cons.IH [of "keys @ [k]"] by simp
  qed
qed

lemma set_first_seen: "set (first_seen xs) = set xs"
  by (induction xs rule: first_seen.induct) auto

lemma distinct_first_seen: "distinct (first_seen xs)"
  by (induction xs rule: first_seen.induct) (auto simp: set_first_seen)

lemma subseq_first_seen: "subseq (first_seen xs) xs"
proof (induction xs rule: first_seen.induct)
  case 1
  then show ?case by simp
next
  case (2 x xs)
  have "subseq (filter (\<lambda>y. y \<noteq> x) xs) xs" by simp
  with 2 have "subseq (first_seen (filter (\<lambda>y. y \<noteq> x) xs)) xs"
    using subseq_order.order_trans by blast
  then show ?case by simp
qed

text \<open>
  C9. For every private message carrying custom-emoji annotations, the id sequence that
  \<open>custom_emoji_id_private\<close> reports is the extracted id sequence with duplicates
  removed and first-seen order preserved; annotations referencing the ids A, B, A give
  the reported sequence A, B.
\<close>

theorem reported_ids_first_seen:
  "custom_emoji_id_private msg answer =
     (let ids = extract_custom_emoji_ids msg; reported = first_seen ids;
          txt = (if length reported = 1 then S_emoji_id_one @ hd reported
                 else S_emoji_id_many @ str_join NL reported)
      in if ids = [] then (Inr (), []) else (answer txt, [Answer txt]))
   \<and> dict_fromkeys [] ids = first_seen ids
   \<and> distinct (first_seen ids)
   \<and> set (first_seen ids) = set ids
   \<and> subseq (first_seen ids) ids
   \<and> (a \<noteq> b \<longrightarrow> first_seen [a, b, a] = [a, b])
   \<and> (a \<noteq> b \<and> a \<noteq> [] \<and> b \<noteq> [] \<longrightarrow>
        extract_custom_emoji_ids (emoji_message a b) = [a, b, a]
        \<and> snd (custom_emoji_id_private (emoji_message a b) answer)
            = [Answer (S_emoji_id_many @ a @ NL @ b)])"
proof -
  have eq: "dict_fromkeys [] xs = first_seen xs" for xs :: "pystr list"
    using dict_fromkeys_first_seen [of "[]" xs] by simp
  have handler: "custom_emoji_id_private msg answer =
     (let ids = extract_custom_emoji_ids msg; reported = first_seen ids;
          txt = (if length reported = 1 then S_emoji_id_one @ hd reported
                 else S_emoji_id_many @ str_join NL reported)
      in if ids = [] then (Inr (), []) else (answer txt, [Answer txt]))" for msg
    by (simp add: custom_emoji_id_private_def eq Let_def)
  have ex1: "first_seen [a, b, a] = [a, b]" if "a \<noteq> b"
    using that by simp
  have ex2: "extract_custom_emoji_ids (emoji_message a b) = [a, b, a]" if "a \<noteq> []" "b \<noteq> []"
    using that
    by (simp add: extract_custom_emoji_ids_def emoji_message_def emoji_entity_def
          bold_entity_def truthy_list_def truthy_str_def S_custom_emoji_def ascii_def)
  have ex3: "snd (custom_emoji_id_private (emoji_message a b) answer)
            = [Answer (S_emoji_id_many @ a @ NL @ b)]" if "a \<noteq> b" "a \<noteq> []" "b \<noteq> []"
    using that by (simp add: handler ex2 ex1 Let_def)
  show ?thesis
    using handler [of msg] eq [of ids] distinct_first_seen [of ids] set_first_seen [of ids]
      subseq_first_seen [of ids] ex1 ex2 ex3
    by blast
qed

theorem reported_ids_first_seen_witness:
  "ascii ''A'' \<noteq> ascii ''B'' \<and> ascii ''A'' \<noteq> [] \<and> ascii ''B'' \<noteq> []
   \<and> first_seen [ascii ''A'', ascii ''B'', ascii ''A''] = [ascii ''A'', ascii ''B'']
   \<and> extract_custom_emoji_ids (emoji_message (ascii ''A'') (ascii ''B''))
       = [ascii ''A'', ascii ''B'', ascii ''A'']
   \<and> custom_emoji_id_private (emoji_message (ascii ''A'') (ascii ''B'')) answer_ok
       = (Inr (), [Answer (S_emoji_id_many @ ascii ''A'' @ NL @ ascii ''B'')])"
  using reported_ids_first_seen [of "emoji_message (ascii ''A'') (ascii ''B'')" answer_ok
          "[]" "ascii ''A''" "ascii ''B''"]
  by (simp add: ascii_def Let_def)

section \<open>Field renderers\<close>

subsection \<open>Tri-state flags of the user report\<close>

lemma yes_no_cases:
  "yes_no v = S_yes \<and> v = Some True \<or> yes_no v = S_no \<and> v = Some False
   \<or> yes_no v = S_unknown \<and> v = None"
  by (cases v) (auto simp: yes_no_def)

lemma tokens_distinct:
  "S_yes \<noteq> S_no" "S_yes \<noteq> S_unknown" "S_no \<noteq> S_unknown"
  "S_yes \<noteq> []" "S_no \<noteq> []" "S_unknown \<noteq> []"
  by (simp_all add: S_yes_def S_no_def S_unknown_def)

lemma format_user_fields_flags:
  "map flag_line (user_flags u)
     = format_user_fields u ! 1 # take 10 (drop 5 (format_user_fields u))"
  by (simp add: format_user_fields_def user_flags_def flag_line_def)

lemma format_user_fields_length: "15 \<le> length (format_user_fields u)"
  by (simp add: format_user_fields_def)

lemma sublist_str_join: "x \<in> set xs \<Longrightarrow> sublist x (str_join sep xs)"
proof (induction sep xs rule: str_join.induct)
  case (1 sep)
  then show ?case by simp
next
  case (2 sep x')
  then show ?case by simp
next
  case (3 sep x' y ys)
  show ?case
  proof (cases "x = x'")
    case True
    then show ?thesis by (simp add: sublist_append_rightI)
  next
    case False
    with 3 have "sublist x (str_join sep (y # ys))" by simp
    then have "sublist x ((x' @ sep) @ str_join sep (y # ys))"
      by (simp only: sublist_append) blast
    then show ?thesis by simp
  qed
qed

lemma flag_lines_in_fields:
  "set (map flag_line (user_flags u)) \<subseteq> set (format_user_fields u)"
proof -
  have "set (take 10 (drop 5 (format_user_fields u))) \<subseteq> set (format_user_fields u)"
    by (meson set_take_subset set_drop_subset subset_trans)
  moreover have "format_user_fields u ! 1 \<in> set (format_user_fields u)"
    using format_user_fields_length [of u] by (intro nth_mem) simp
  ultimately show ?thesis
    by (simp add: format_user_fields_flags del: map_map)
qed

text \<open>
  C6. For every user, the formatted user report renders each flag of the fixed
  enumeration as its label followed by exactly one of the three fixed tokens (yes, no,
  unknown): the eleven flag lines stand at fixed places of the report, none is empty and
  none is left out, and a flag whose attribute is absent gets the token for unknown.
\<close>

theorem user_flags_render_as_tokens:
  "length (user_flags u) = 11
   \<and> map flag_line (user_flags u)
       = format_user_fields u ! 1 # take 10 (drop 5 (format_user_fields u))
   \<and> 15 \<le> length (format_user_fields u)
   \<and> format_user u = str_join NL (format_user_fields u)
   \<and> (\<forall>f \<in> set (user_flags u).
         flag_line f = fst f @ yes_no (snd f)
         \<and> flag_line f \<noteq> []
         \<and> flag_line f \<in> set (format_user_fields u)
         \<and> sublist (flag_line f) (format_user u)
         \<and> (snd f = None \<longrightarrow> flag_line f = fst f @ S_unknown))
   \<and> yes_no v \<in> {S_yes, S_no, S_unknown}
   \<and> yes_no v \<noteq> []
   \<and> (yes_no v = S_yes) = (v = Some True)
   \<and> (yes_no v = S_no) = (v = Some False)
   \<and> (yes_no v = S_unknown) = (v = None)
   \<and> S_yes \<noteq> S_no \<and> S_yes \<noteq> S_unknown \<and> S_no \<noteq> S_unknown"
proof -
  have n: "length (user_flags u) = 11"
    by (simp add: user_flags_def)
  have join: "format_user u = str_join NL (format_user_fields u)"
    by (simp add: format_user_def)
  have tok: "yes_no w \<noteq> []" for w
    using yes_no_cases [of w] tokens_distinct by auto
  have each: "flag_line f = fst f @ yes_no (snd f)
         \<and> flag_line f \<noteq> []
         \<and> flag_line f \<in> set (format_user_fields u)
         \<and> sublist (flag_line f) (format_user u)
         \<and> (snd f = None \<longrightarrow> flag_line f = fst f @ S_unknown)"
    if "f \<in> set (user_flags u)" for f
  proof -
    have mem: "flag_line f \<in> set (format_user_fields u)"
      using that flag_lines_in_fields [of u] by auto
    then have "sublist (flag_line f) (format_user u)"
      unfolding join by (rule sublist_str_join)
    with mem tok [of "snd f"] show ?thesis
      by (auto simp: flag_line_def yes_no_def)
  qed
  have v1: "yes_no v \<in> {S_yes, S_no, S_unknown}"
    using yes_no_cases [of v] by auto
  have v2: "(yes_no v = S_yes) = (v = Some True)"
    using yes_no_cases [of v] tokens_distinct by auto
  have v3: "(yes_no v = S_no) = (v = Some False)"
    using yes_no_cases [of v] tokens_distinct by auto
  have v4: "(yes_no v = S_unknown) = (v = None)"
    using yes_no_cases [of v] tokens_distinct by auto
  show ?thesis
    using n format_user_fields_flags [of u] format_user_fields_length [of u] join each
      v1 tok [of v] v2 v3 v4 tokens_distinct(1,2,3)
    by blast
qed

theorem user_flags_render_as_tokens_witness:
  "(S_Premium, None) \<in> set (user_flags (sample_user 42 (ascii ''Ann'')))
   \<and> S_Premium @ S_unknown \<in> set (format_user_fields (sample_user 42 (ascii ''Ann'')))
   \<and> sublist (S_Premium @ S_unknown) (format_user (sample_user 42 (ascii ''Ann'')))
   \<and> (S_Bot, Some False) \<in> set (user_flags (sample_user 42 (ascii ''Ann'')))
   \<and> S_Bot @ S_no \<in> set (format_user_fields (sample_user 42 (ascii ''Ann'')))
   \<and> length (format_user_fields (sample_user 42 (ascii ''Ann''))) = 15"
proof -
  have a: "(S_Premium, None) \<in> set (user_flags (sample_user 42 (ascii ''Ann'')))"
    by (simp add: user_flags_def sample_user_def)
  have b: "(S_Bot, Some False) \<in> set (user_flags (sample_user 42 (ascii ''Ann'')))"
    by (simp add: user_flags_def sample_user_def)
  have c: "length (format_user_fields (sample_user 42 (ascii ''Ann''))) = 15"
    by (simp add: format_user_fields_def sample_user_def truthy_str_def truthy_int_def)
  have all: "\<forall>f \<in> set (user_flags (sample_user 42 (ascii ''Ann''))).
         flag_line f \<in> set (format_user_fields (sample_user 42 (ascii ''Ann'')))
         \<and> sublist (flag_line f) (format_user (sample_user 42 (ascii ''Ann'')))"
    using user_flags_render_as_tokens [of "sample_user 42 (ascii ''Ann'')" None] by blast
  from all a b c show ?thesis
    by (fastforce simp: flag_line_def yes_no_def)
qed

subsection \<open>The permissions line\<close>

lemma allowed_labels_filter:
  "allowed_labels p m = map snd (filter (\<lambda>(attr, label). attr p = Some True) m)"
  by (induction p m rule: allowed_labels.induct) auto

lemma allowed_labels_Nil:
  "(allowed_labels p m = []) = (\<forall>(attr, label) \<in> set m. attr p \<noteq> Some True)"
  by (induction p m rule: allowed_labels.induct) auto

lemma allowed_labels_subset: "set (allowed_labels p m) \<subseteq> snd ` set m"
  by (induction p m rule: allowed_labels.induct) auto

lemma allowed_labels_subseq: "subseq (allowed_labels p m) (map snd m)"
  by (induction p m rule: allowed_labels.induct) auto

lemma hd_str_join:
  "xs \<noteq> [] \<Longrightarrow> hd xs \<noteq> [] \<Longrightarrow> str_join sep xs \<noteq> [] \<and> hd (str_join sep xs) = hd (hd xs)"
  by (induction sep xs rule: str_join.induct) auto

lemma label_heads:
  "l \<in> snd ` set mapping \<Longrightarrow> l \<noteq> [] \<and> hd l \<noteq> 1079 \<and> hd l \<noteq> 1085"
  by (auto simp: mapping_def L_messages_def L_audios_def L_documents_def L_photos_def
        L_videos_def L_video_notes_def L_voice_notes_def L_polls_def L_other_def
        L_previews_def L_change_info_def L_invite_def L_pin_def L_topics_def)

lemma granted_line_head:
  assumes "allowed_labels p mapping \<noteq> []"
  shows "str_join S_comma (allowed_labels p mapping) \<noteq> []
     \<and> hd (str_join S_comma (allowed_labels p mapping)) \<noteq> 1079
     \<and> hd (str_join S_comma (allowed_labels p mapping)) \<noteq> 1085"
proof -
  have "hd (allowed_labels p mapping) \<in> snd ` set mapping"
    using assms allowed_labels_subset [of p mapping] by (meson hd_in_set subsetD)
  then have "hd (allowed_labels p mapping) \<noteq> [] \<and> hd (hd (allowed_labels p mapping)) \<noteq> 1079
      \<and> hd (hd (allowed_labels p mapping)) \<noteq> 1085"
    by (rule label_heads)
  with hd_str_join [OF assms, of S_comma] show ?thesis by simp
qed

lemma perms_lines_split:
  "S_Perms_all_denied = S_Perms @ 1079 # tl (drop (length S_Perms) S_Perms_all_denied)"
  "S_Perms_unavailable = S_Perms @ 1085 # tl (drop (length S_Perms) S_Perms_unavailable)"
  by (simp_all add: S_Perms_all_denied_def S_Perms_unavailable_def S_Perms_def)

lemma granted_line_distinct:
  assumes "allowed_labels p mapping \<noteq> []"
  shows "S_Perms @ str_join S_comma (allowed_labels p mapping) \<noteq> S_Perms_all_denied"
    and "S_Perms @ str_join S_comma (allowed_labels p mapping) \<noteq> S_Perms_unavailable"
proof -
  let ?j = "str_join S_comma (allowed_labels p mapping)"
  have h: "?j \<noteq> [] \<and> hd ?j \<noteq> 1079 \<and> hd ?j \<noteq> 1085"
    using granted_line_head [OF assms] .
  then obtain c cs where j: "?j = c # cs" "c \<noteq> 1079" "c \<noteq> 1085"
    by (cases ?j) auto
  show "S_Perms @ ?j \<noteq> S_Perms_all_denied"
    by (subst perms_lines_split(1)) (simp add: j)
  show "S_Perms @ ?j \<noteq> S_Perms_unavailable"
    by (subst perms_lines_split(2)) (simp add: j)
qed

lemma perms_fixed_distinct: "S_Perms_unavailable \<noteq> S_Perms_all_denied"
  by (simp add: S_Perms_all_denied_def S_Perms_unavailable_def)

lemma only_send_and_pin:
  assumes "can_send_messages p = Some True" "can_pin_messages p = Some True"
    "can_send_audios p \<noteq> Some True" "can_send_documents p \<noteq> Some True"
    "can_send_photos p \<noteq> Some True" "can_send_videos p \<noteq> Some True"
    "can_send_video_notes p \<noteq> Some True" "can_send_voice_notes p \<noteq> Some True"
    "can_send_polls p \<noteq> Some True" "can_send_other_messages p \<noteq> Some True"
    "can_add_web_page_previews p \<noteq> Some True" "can_change_info p \<noteq> Some True"
    "can_invite_users p \<noteq> Some True" "can_manage_topics p \<noteq> Some True"
  shows "allowed_labels p mapping = [L_messages, L_pin]"
  using assms by (simp add: mapping_def)

text \<open>
  C7. The permissions line is the "all denied" line exactly when every tracked permission
  is false or absent, otherwise the comma-joined labels of the granted permissions in
  the fixed enumeration order (a record that grants only \<open>can_send_messages\<close> and
  \<open>can_pin_messages\<close> gives exactly those two labels, in that order), and the
  "unavailable" line exactly when the permissions record itself is absent; the three
  kinds of line are pairwise distinct.
\<close>

theorem format_permissions_three_cases:
  "(format_permissions c = S_Perms_unavailable) = (c_permissions c = None)
   \<and> (c_permissions c = Some p \<longrightarrow>
        ((format_permissions c = S_Perms_all_denied)
           = (\<forall>(attr, label) \<in> set mapping. attr p \<noteq> Some True))
        \<and> ((\<exists>(attr, label) \<in> set mapping. attr p = Some True) \<longrightarrow>
             format_permissions c = S_Perms @ str_join S_comma (allowed_labels p mapping)
             \<and> format_permissions c \<noteq> S_Perms_all_denied
             \<and> format_permissions c \<noteq> S_Perms_unavailable)
        \<and> allowed_labels p mapping
             = map snd (filter (\<lambda>(attr, label). attr p = Some True) mapping)
        \<and> subseq (allowed_labels p mapping) (map snd mapping))
   \<and> (c_permissions c = Some p
        \<and> can_send_messages p = Some True \<and> can_pin_messages p = Some True
        \<and> can_send_audios p \<noteq> Some True \<and> can_send_documents p \<noteq> Some True
        \<and> can_send_photos p \<noteq> Some True \<and> can_send_videos p \<noteq> Some True
        \<and> can_send_video_notes p \<noteq> Some True \<and> can_send_voice_notes p \<noteq> Some True
        \<and> can_send_polls p \<noteq> Some True \<and> can_send_other_messages p \<noteq> Some True
        \<and> can_add_web_page_previews p \<noteq> Some True \<and> can_change_info p \<noteq> Some True
        \<and> can_invite_users p \<noteq> Some True \<and> can_manage_topics p \<noteq> Some True
      \<longrightarrow> format_permissions c = S_Perms @ L_messages @ S_comma @ L_pin)
   \<and> S_Perms_unavailable \<noteq> S_Perms_all_denied"
proof -
  have none: "format_permissions c = S_Perms_unavailable" if "c_permissions c = None"
    using that by (simp add: format_permissions_def)
  have denied: "format_permissions c = S_Perms_all_denied"
    if "c_permissions c = Some p" "allowed_labels p mapping = []"
    using that by (simp add: format_permissions_def)
  have granted: "format_permissions c = S_Perms @ str_join S_comma (allowed_labels p mapping)"
    if "c_permissions c = Some p" "allowed_labels p mapping \<noteq> []"
    using that by (simp add: format_permissions_def)
  have first: "(format_permissions c = S_Perms_unavailable) = (c_permissions c = None)"
  proof (cases "c_permissions c")
    case None
    then show ?thesis using none by simp
  next
    case (Some q)
    have "format_permissions c \<noteq> S_Perms_unavailable"
    proof (cases "allowed_labels q mapping = []")
      case True
      then show ?thesis
        using Some perms_fixed_distinct by (simp add: format_permissions_def)
    next
      case False
      then show ?thesis
        using Some granted_line_distinct(2) [of q] by (simp add: format_permissions_def)
    qed
    then show ?thesis using Some by simp
  qed
  have iff: "(format_permissions c = S_Perms_all_denied)
           = (\<forall>(attr, label) \<in> set mapping. attr p \<noteq> Some True)"
    if "c_permissions c = Some p"
    using that denied granted granted_line_distinct(1) [of p] allowed_labels_Nil [of p mapping]
    by (cases "allowed_labels p mapping = []") auto
  have nonempty: "allowed_labels p mapping \<noteq> []"
    if "\<exists>(attr, label) \<in> set mapping. attr p = Some True"
    using that allowed_labels_Nil [of p mapping] by auto
  have list: "format_permissions c = S_Perms @ str_join S_comma (allowed_labels p mapping)
             \<and> format_permissions c \<noteq> S_Perms_all_denied
             \<and> format_permissions c \<noteq> S_Perms_unavailable"
    if "c_permissions c = Some p" "\<exists>(attr, label) \<in> set mapping. attr p = Some True"
    using granted [OF that(1) nonempty [OF that(2)]] granted_line_distinct [OF nonempty [OF that(2)]]
    by simp
  have example: "format_permissions c = S_Perms @ L_messages @ S_comma @ L_pin"
    if "c_permissions c = Some p"
      "can_send_messages p = Some True" "can_pin_messages p = Some True"
      "can_send_audios p \<noteq> Some True" "can_send_documents p \<noteq> Some True"
      "can_send_photos p \<noteq> Some True" "can_send_videos p \<noteq> Some True"
      "can_send_video_notes p \<noteq> Some True" "can_send_voice_notes p \<noteq> Some True"
      "can_send_polls p \<noteq> Some True" "can_send_other_messages p \<noteq> Some True"
      "can_add_web_page_previews p \<noteq> Some True" "can_change_info p \<noteq> Some True"
      "can_invite_users p \<noteq> Some True" "can_manage_topics p \<noteq> Some True"
  proof -
    have "allowed_labels p mapping = [L_messages, L_pin]"
      using that(2-) by (rule only_send_and_pin)
    then show ?thesis
      using that(1) by (simp add: format_permissions_def)
  qed
  show ?thesis
    using first iff list allowed_labels_filter [of p mapping] allowed_labels_subseq [of p mapping]
      example perms_fixed_distinct
    by blast
qed

theorem format_permissions_three_cases_witness:
  "c_permissions sample_chat = Some send_and_pin
   \<and> format_permissions sample_chat = S_Perms @ L_messages @ S_comma @ L_pin
   \<and> format_permissions sample_chat \<noteq> S_Perms_all_denied
   \<and> format_permissions sample_chat \<noteq> S_Perms_unavailable
   \<and> c_permissions (sample_chat \<lparr> c_permissions := Some no_permissions \<rparr>) = Some no_permissions
   \<and> format_permissions (sample_chat \<lparr> c_permissions := Some no_permissions \<rparr>) = S_Perms_all_denied
   \<and> format_permissions (sample_chat \<lparr> c_permissions := None \<rparr>) = S_Perms_unavailable"
proof -
  have a: "c_permissions sample_chat = Some send_and_pin"
    by (simp add: sample_chat_def)
  have ex: "\<exists>(attr, label) \<in> set mapping. attr send_and_pin = Some True"
    by (simp add: mapping_def send_and_pin_def no_permissions_def)
  have b: "format_permissions sample_chat = S_Perms @ L_messages @ S_comma @ L_pin"
    using format_permissions_three_cases [of sample_chat send_and_pin] a
    by (simp add: send_and_pin_def no_permissions_def)
  have c: "format_permissions sample_chat \<noteq> S_Perms_all_denied
      \<and> format_permissions sample_chat \<noteq> S_Perms_unavailable"
    using format_permissions_three_cases [of sample_chat send_and_pin] a ex by blast
  have d: "c_permissions (sample_chat \<lparr> c_permissions := Some no_permissions \<rparr>) = Some no_permissions"
    by simp
  have none: "\<forall>(attr, label) \<in> set mapping. attr no_permissions \<noteq> Some True"
    by (simp add: mapping_def no_permissions_def)
  have e: "format_permissions (sample_chat \<lparr> c_permissions := Some no_permissions \<rparr>) = S_Perms_all_denied"
    using format_permissions_three_cases
            [of "sample_chat \<lparr> c_permissions := Some no_permissions \<rparr>" no_permissions] d none
    by blast
  have f: "format_permissions (sample_chat \<lparr> c_permissions := None \<rparr>) = S_Perms_unavailable"
    using format_permissions_three_cases [of "sample_chat \<lparr> c_permissions := None \<rparr>" no_permissions]
    by simp
  from a b c d e f show ?thesis by blast
qed

section \<open>The chat report and its sub-fetches\<close>

lemma safe_get_member_count_cases:
  "fst (safe_get_member_count b chat_id) =
     (case get_chat_member_count b chat_id of
        Inr n \<Rightarrow> Inr (Some n)
      | Inl e \<Rightarrow> if soft_failure e then Inr None else Inl e)"
  by (cases "get_chat_member_count b chat_id")
     (auto simp: safe_get_member_count_def split: py_exception.splits)

lemma safe_get_admins_cases:
  "fst (safe_get_admins b chat_id) =
     (case get_chat_administrators b chat_id of
        Inr admins \<Rightarrow> Inr admins
      | Inl e \<Rightarrow> if soft_failure e then Inr [] else Inl e)"
  by (cases "get_chat_administrators b chat_id")
     (auto simp: safe_get_admins_def split: py_exception.splits)

lemma build_chat_info_fst:
  "fst (build_chat_info b chat_id thread_id is_topic_message msg) =
     (case get_chat b chat_id of
        Inl e \<Rightarrow> Inl e
      | Inr c \<Rightarrow>
          (case fst (safe_get_member_count b chat_id) of
             Inl e \<Rightarrow> Inl e
           | Inr member_count \<Rightarrow>
               (case fst (safe_get_admins b chat_id) of
                  Inl e \<Rightarrow> Inl e
                | Inr admins \<Rightarrow>
                    Inr (str_join NL
                           (chat_lines c member_count admins thread_id is_topic_message msg)))))"
  by (simp add: build_chat_info_def split: sum.splits prod.splits)

lemma format_admins_unavailable:
  "(format_admins admins limit = S_Admins_unavailable) = (admins = [])"
  by (simp add: format_admins_def Let_def S_Admins_open_def S_Admins_unavailable_def)

text \<open>
  C2 as stated: an empty admin list is a state distinct from "unavailable", so the admin
  line for a fetch that succeeded with zero admins differs from the line for a fetch
  that failed. It does not: \<open>safe_get_admins\<close> turns a forbidden fetch into the empty
  list, \<open>format_admins\<close> renders the empty list as "unavailable", and the two
  reports are the same text.
\<close>

theorem empty_admin_list_is_unavailable_counterexample:
  "get_chat_administrators bot_zero_admins 1 = Inr []
   \<and> get_chat_administrators bot_admins_forbidden 1
       = Inl (TelegramForbiddenError (ascii ''bot is not a member''))
   \<and> fst (safe_get_admins bot_zero_admins 1) = fst (safe_get_admins bot_admins_forbidden 1)
   \<and> format_admins [] 6 = S_Admins_unavailable
   \<and> fst (build_chat_info bot_zero_admins 1 None False None)
       = fst (build_chat_info bot_admins_forbidden 1 None False None)"
  by (simp add: build_chat_info_fst safe_get_admins_cases safe_get_member_count_cases
        bot_zero_admins_def bot_admins_forbidden_def sample_bot_def format_admins_def)

text \<open>
  C2, amended. The admin line is the "unavailable" line exactly when the list handed to
  \<open>format_admins\<close> is empty, and that list is empty both when the fetch failed
  (access forbidden or bad request) and when it succeeded with zero admins: the two are
  not told apart. A fetch that returns at least one admin gives a line that differs from
  the "unavailable" line: the count in parentheses, then the first six admins, then the
  number of those left out.
\<close>

theorem admin_line_unavailable_iff_no_admins:
  "(format_admins admins 6 = S_Admins_unavailable) = (admins = [])
   \<and> (get_chat_administrators b chat_id = Inr admins \<longrightarrow>
        fst (safe_get_admins b chat_id) = Inr admins)
   \<and> (get_chat_administrators b chat_id = Inl e \<and> soft_failure e \<longrightarrow>
        fst (safe_get_admins b chat_id) = Inr []
        \<and> format_admins [] 6 = S_Admins_unavailable)
   \<and> (get_chat_administrators b chat_id = Inr [] \<longrightarrow>
        fst (safe_get_admins b chat_id) = Inr []
        \<and> format_admins [] 6 = S_Admins_unavailable)
   \<and> (get_chat_administrators b chat_id = Inr admins \<and> admins \<noteq> [] \<longrightarrow>
        format_admins admins 6 \<noteq> S_Admins_unavailable
        \<and> format_admins admins 6 =
            S_Admins_open @ str_nat (length admins) @ S_close_colon
              @ str_join S_comma (map render_admin (take 6 admins))
              @ (if 6 < length admins then S_and_more @ str_nat (length admins - 6) else []))"
proof -
  have line: "format_admins admins 6 =
            S_Admins_open @ str_nat (length admins) @ S_close_colon
              @ str_join S_comma (map render_admin (take 6 admins))
              @ (if 6 < length admins then S_and_more @ str_nat (length admins - 6) else [])"
    if "admins \<noteq> []"
    using that by (simp add: format_admins_def Let_def)
  have ok: "fst (safe_get_admins b chat_id) = Inr xs"
    if "get_chat_administrators b chat_id = Inr xs" for xs
    using that by (simp add: safe_get_admins_cases)
  have soft: "fst (safe_get_admins b chat_id) = Inr []"
    if "get_chat_administrators b chat_id = Inl e" "soft_failure e"
    using that by (simp add: safe_get_admins_cases)
  have empty: "format_admins [] 6 = S_Admins_unavailable"
    by (simp add: format_admins_unavailable)
  have nonempty: "format_admins admins 6 \<noteq> S_Admins_unavailable" if "admins \<noteq> []"
    using that by (simp add: format_admins_unavailable)
  from format_admins_unavailable [of admins 6] line ok soft empty nonempty
  show ?thesis by blast
qed

theorem admin_line_unavailable_iff_no_admins_witness:
  "get_chat_administrators sample_bot 1 = Inr [sample_admin]
   \<and> [sample_admin] \<noteq> []
   \<and> format_admins [sample_admin] 6 \<noteq> S_Admins_unavailable
   \<and> format_admins [sample_admin] 6
       = S_Admins_open @ ascii ''1'' @ S_close_colon @ ascii ''Ann'' @ S_id_open @ ascii ''7'' @ S_close
   \<and> get_chat_administrators bot_admins_forbidden 1
       = Inl (TelegramForbiddenError (ascii ''bot is not a member''))
   \<and> soft_failure (TelegramForbiddenError (ascii ''bot is not a member''))
   \<and> fst (safe_get_admins bot_admins_forbidden 1) = Inr []
   \<and> get_chat_administrators bot_zero_admins 1 = Inr []
   \<and> fst (safe_get_admins bot_zero_admins 1) = Inr []"
proof -
  have a: "get_chat_administrators sample_bot 1 = Inr [sample_admin]"
    by (simp add: sample_bot_def)
  have b: "[sample_admin] \<noteq> []"
    by simp
  have c: "get_chat_administrators bot_admins_forbidden 1
       = Inl (TelegramForbiddenError (ascii ''bot is not a member''))"
    by (simp add: bot_admins_forbidden_def)
  have d: "soft_failure (TelegramForbiddenError (ascii ''bot is not a member''))"
    by simp
  have e: "get_chat_administrators bot_zero_admins 1 = Inr []"
    by (simp add: bot_zero_admins_def)
  have shown: "str_join S_comma (map render_admin (take 6 [sample_admin]))
      = ascii ''Ann'' @ S_id_open @ ascii ''7'' @ S_close"
    by (simp add: render_admin_def sample_admin_def sample_user_def str_int_def ascii_def)
  have n: "str_nat (length [sample_admin]) = ascii ''1''"
    by (simp add: ascii_def)
  have f: "format_admins [sample_admin] 6 \<noteq> S_Admins_unavailable
      \<and> format_admins [sample_admin] 6
       = S_Admins_open @ str_nat (length [sample_admin]) @ S_close_colon
              @ str_join S_comma (map render_admin (take 6 [sample_admin]))
              @ (if 6 < length [sample_admin]
                 then S_and_more @ str_nat (length [sample_admin] - 6) else [])"
    using admin_line_unavailable_iff_no_admins [of "[sample_admin]" sample_bot 1] a b by blast
  have g: "fst (safe_get_admins bot_admins_forbidden 1) = Inr []"
    using admin_line_unavailable_iff_no_admins
      [of "[]" bot_admins_forbidden 1 "TelegramForbiddenError (ascii ''bot is not a member'')"]
      c d by blast
  have h: "fst (safe_get_admins bot_zero_admins 1) = Inr []"
    using admin_line_unavailable_iff_no_admins [of "[]" bot_zero_admins 1] e by blast
  have line: "format_admins [sample_admin] 6
       = S_Admins_open @ ascii ''1'' @ S_close_colon @ ascii ''Ann'' @ S_id_open @ ascii ''7'' @ S_close"
    using f unfolding shown n by simp
  from a b c d e f g h line show ?thesis by blast
qed

text \<open>
  C1 as stated: no exception of any kind raised by the member-count or admin-list
  sub-fetch ever aborts the whole report. It does: the two wrappers catch
  \<open>TelegramForbiddenError\<close> and \<open>TelegramBadRequest\<close> only, so a network error
  raised by either fetch leaves \<open>build_chat_info\<close> and no report is produced.
\<close>

theorem sub_fetch_failure_aborts_report_counterexample:
  "get_chat sample_bot 1 = Inr sample_chat
   \<and> get_chat_administrators bot_admins_network_error 1
       = Inl (OtherException (ascii ''TelegramNetworkError'') (ascii ''timeout''))
   \<and> is_Exception (OtherException (ascii ''TelegramNetworkError'') (ascii ''timeout''))
   \<and> build_chat_info bot_admins_network_error 1 None False None
       = (Inl (OtherException (ascii ''TelegramNetworkError'') (ascii ''timeout'')), [])
   \<and> get_chat_member_count bot_count_network_error 1
       = Inl (OtherException (ascii ''TelegramNetworkError'') (ascii ''timeout''))
   \<and> build_chat_info bot_count_network_error 1 None False None
       = (Inl (OtherException (ascii ''TelegramNetworkError'') (ascii ''timeout'')), [])"
  by (simp add: build_chat_info_def safe_get_admins_def safe_get_member_count_def
        bot_admins_network_error_def bot_count_network_error_def sample_bot_def)

text \<open>
  C1, amended. A forbidden-access or bad-request failure of the member-count or
  admin-list sub-fetch degrades (the member count to \<open>None\<close>, the admin list to the
  empty list) and the report is still produced from the degraded values. A failure of
  any other kind raised by either sub-fetch is not caught: it leaves
  \<open>build_chat_info\<close> and no report is produced.
\<close>

theorem soft_sub_fetch_failures_degrade:
  "fst (safe_get_member_count b chat_id) =
     (case get_chat_member_count b chat_id of
        Inr n \<Rightarrow> Inr (Some n)
      | Inl e \<Rightarrow> if soft_failure e then Inr None else Inl e)
   \<and> fst (safe_get_admins b chat_id) =
     (case get_chat_administrators b chat_id of
        Inr admins \<Rightarrow> Inr admins
      | Inl e \<Rightarrow> if soft_failure e then Inr [] else Inl e)
   \<and> (get_chat b chat_id = Inr c
        \<and> soft_or_ok (get_chat_member_count b chat_id)
        \<and> soft_or_ok (get_chat_administrators b chat_id)
      \<longrightarrow> fst (build_chat_info b chat_id thread_id is_topic_message msg) =
            Inr (str_join NL
                   (chat_lines c (degraded_count (get_chat_member_count b chat_id))
                      (degraded_admins (get_chat_administrators b chat_id))
                      thread_id is_topic_message msg)))
   \<and> (get_chat b chat_id = Inr c
        \<and> get_chat_member_count b chat_id = Inl e \<and> \<not> soft_failure e
      \<longrightarrow> fst (build_chat_info b chat_id thread_id is_topic_message msg) = Inl e)
   \<and> (get_chat b chat_id = Inr c
        \<and> soft_or_ok (get_chat_member_count b chat_id)
        \<and> get_chat_administrators b chat_id = Inl e \<and> \<not> soft_failure e
      \<longrightarrow> fst (build_chat_info b chat_id thread_id is_topic_message msg) = Inl e)"
proof -
  let ?report = "fst (build_chat_info b chat_id thread_id is_topic_message msg)"
  have count_ok: "\<exists>mc. fst (safe_get_member_count b chat_id) = Inr mc
      \<and> mc = degraded_count (get_chat_member_count b chat_id)"
    if "soft_or_ok (get_chat_member_count b chat_id)"
    using that
    by (cases "get_chat_member_count b chat_id")
       (simp_all add: safe_get_member_count_cases degraded_count_def soft_or_ok_def)
  have admins_ok: "\<exists>a. fst (safe_get_admins b chat_id) = Inr a
      \<and> a = degraded_admins (get_chat_administrators b chat_id)"
    if "soft_or_ok (get_chat_administrators b chat_id)"
    using that
    by (cases "get_chat_administrators b chat_id")
       (simp_all add: safe_get_admins_cases degraded_admins_def soft_or_ok_def)
  have degrade: "?report =
            Inr (str_join NL
                   (chat_lines c (degraded_count (get_chat_member_count b chat_id))
                      (degraded_admins (get_chat_administrators b chat_id))
                      thread_id is_topic_message msg))"
    if "get_chat b chat_id = Inr c"
       "soft_or_ok (get_chat_member_count b chat_id)"
       "soft_or_ok (get_chat_administrators b chat_id)"
    using that(1) count_ok [OF that(2)] admins_ok [OF that(3)]
    by (auto simp: build_chat_info_fst)
  have abort_count: "?report = Inl e"
    if "get_chat b chat_id = Inr c" "get_chat_member_count b chat_id = Inl e" "\<not> soft_failure e"
    using that by (simp add: build_chat_info_fst safe_get_member_count_cases)
  have abort_admins: "?report = Inl e"
    if "get_chat b chat_id = Inr c"
       "soft_or_ok (get_chat_member_count b chat_id)"
       "get_chat_administrators b chat_id = Inl e" "\<not> soft_failure e"
    using that(1,3,4) count_ok [OF that(2)]
    by (auto simp: build_chat_info_fst safe_get_admins_cases)
  from safe_get_member_count_cases [of b chat_id] safe_get_admins_cases [of b chat_id]
    degrade abort_count abort_admins
  show ?thesis by blast
qed

theorem soft_sub_fetch_failures_degrade_witness:
  "get_chat bot_admins_forbidden 1 = Inr sample_chat
   \<and> soft_or_ok (get_chat_member_count bot_admins_forbidden 1)
   \<and> soft_or_ok (get_chat_administrators bot_admins_forbidden 1)
   \<and> degraded_count (get_chat_member_count bot_admins_forbidden 1) = Some 3
   \<and> degraded_admins (get_chat_administrators bot_admins_forbidden 1) = []
   \<and> fst (build_chat_info bot_admins_forbidden 1 None False None)
       = Inr (str_join NL (chat_lines sample_chat (Some 3) [] None False None))
   \<and> get_chat bot_admins_network_error 1 = Inr sample_chat
   \<and> get_chat_administrators bot_admins_network_error 1
       = Inl (OtherException (ascii ''TelegramNetworkError'') (ascii ''timeout''))
   \<and> \<not> soft_failure (OtherException (ascii ''TelegramNetworkError'') (ascii ''timeout''))
   \<and> fst (build_chat_info bot_admins_network_error 1 None False None)
       = Inl (OtherException (ascii ''TelegramNetworkError'') (ascii ''timeout''))"
proof -
  have a: "get_chat bot_admins_forbidden 1 = Inr sample_chat"
    by (simp add: bot_admins_forbidden_def sample_bot_def)
  have b: "soft_or_ok (get_chat_member_count bot_admins_forbidden 1)"
    by (simp add: bot_admins_forbidden_def sample_bot_def soft_or_ok_def)
  have c: "soft_or_ok (get_chat_administrators bot_admins_forbidden 1)"
    by (simp add: bot_admins_forbidden_def soft_or_ok_def)
  have d: "degraded_count (get_chat_member_count bot_admins_forbidden 1) = Some 3"
    by (simp add: bot_admins_forbidden_def sample_bot_def degraded_count_def)
  have e: "degraded_admins (get_chat_administrators bot_admins_forbidden 1) = []"
    by (simp add: bot_admins_forbidden_def degraded_admins_def)
  have f: "fst (build_chat_info bot_admins_forbidden 1 None False None)
       = Inr (str_join NL
                (chat_lines sample_chat (degraded_count (get_chat_member_count bot_admins_forbidden 1))
                   (degraded_admins (get_chat_administrators bot_admins_forbidden 1))
                   None False None))"
    using soft_sub_fetch_failures_degrade [where b = bot_admins_forbidden and chat_id = 1
            and c = sample_chat and thread_id = None and is_topic_message = False and msg = None]
      a b c
    by blast
  have g: "get_chat bot_admins_network_error 1 = Inr sample_chat"
    by (simp add: bot_admins_network_error_def sample_bot_def)
  have h: "get_chat_administrators bot_admins_network_error 1
       = Inl (OtherException (ascii ''TelegramNetworkError'') (ascii ''timeout''))"
    by (simp add: bot_admins_network_error_def)
  have i: "\<not> soft_failure (OtherException (ascii ''TelegramNetworkError'') (ascii ''timeout''))"
    by simp
  have j: "soft_or_ok (get_chat_member_count bot_admins_network_error 1)"
    by (simp add: bot_admins_network_error_def sample_bot_def soft_or_ok_def)
  have k: "fst (build_chat_info bot_admins_network_error 1 None False None)
       = Inl (OtherException (ascii ''TelegramNetworkError'') (ascii ''timeout''))"
    using soft_sub_fetch_failures_degrade [where b = bot_admins_network_error and chat_id = 1
            and c = sample_chat and thread_id = None and is_topic_message = False and msg = None
            and e = "OtherException (ascii ''TelegramNetworkError'') (ascii ''timeout'')"]
      g h i j
    by blast
  from a b c d e f [unfolded d e] g h i k show ?thesis by blast
qed

section \<open>The supervisor loop\<close>
















end
